theory Spec2Isabelle
  imports Complex_Main
begin

section \<open>The sidebar navigation data (src/utils/dashboardSidebarData.ts)\<close>

text \<open>
  The module exports one array literal, \<open>SidebarItemsData\<close>, typed by the interface
  \<open>SidebarItem\<close>. The array is kept as the object literals the source writes: every
  object is the list of its \<open>key: value\<close> pairs, in source order, so that the keys a node
  carries are data that can be inspected, exactly as they are at run time.
\<close>

text \<open>The four icon components that the module imports from react-icons.\<close>

datatype IconType = MdOutlineDashboard | MdOutlineCategory | AiOutlineTransaction | PiStudentBold

datatype jsval =
    JNum int
  | JStr string
  | JIcon IconType
  | JArr "jsval list"
  | JObj "(string \<times> jsval) list"

text \<open>Property read \<open>o.k\<close>: \<open>None\<close> is JavaScript's \<open>undefined\<close>.\<close>

fun get_prop :: "string \<Rightarrow> jsval \<Rightarrow> jsval option" where
  "get_prop k (JObj kvs) = map_of kvs k"
| "get_prop k _ = None"

text \<open>\<open>Object.keys\<close>: the own property names, in insertion order.\<close>

fun own_keys :: "jsval \<Rightarrow> string list" where
  "own_keys (JObj kvs) = map fst kvs"
| "own_keys _ = []"

text \<open>
  The interface \<open>SidebarItem\<close> (lines 9 to 16): each declared field with its type and
  whether it is optional (\<open>sub?\<close>).
\<close>

datatype tstype = TNumber | TString | TIconType | TSidebarItems

definition SidebarItem :: "(string \<times> tstype \<times> bool) list" where
  "SidebarItem =
    [(''id'', TNumber, False),
     (''name'', TString, False),
     (''module_id'', TNumber, False),
     (''path'', TString, False),
     (''Icon'', TIconType, False),
     (''sub'', TSidebarItems, True)]"

definition required_fields :: "string list" where
  "required_fields = map fst (filter (\<lambda>(k, t, opt). \<not> opt) SidebarItem)"

definition declared_fields :: "string list" where
  "declared_fields = map fst SidebarItem"

text \<open>
  The fields of a node as the specification's data model lists them: id, name, path,
  icon reference, optional children (\<open>Icon\<close> and \<open>sub\<close> in the source's spelling).
\<close>

definition spec_node_fields :: "string list" where
  "spec_node_fields = [''id'', ''name'', ''path'', ''Icon'', ''sub'']"

definition SidebarItemsData :: "jsval list" where
  "SidebarItemsData =
   [JObj [(''id'', JNum 1),
          (''name'', JStr ''Dashboard''),
          (''module_id'', JNum 1),
          (''path'', JStr ''/''),
          (''Icon'', JIcon MdOutlineDashboard)],
    JObj [(''id'', JNum 2),
          (''name'', JStr ''Three Js''),
          (''module_id'', JNum 1),
          (''path'', JStr ''''),
          (''Icon'', JIcon MdOutlineCategory),
          (''sub'', JArr
            [JObj [(''id'', JNum 21),
                   (''name'', JStr ''Geometries''),
                   (''path'', JStr ''''),
                   (''module_id'', JNum 1),
                   (''Icon'', JIcon AiOutlineTransaction),
                   (''sub'', JArr
                     [JObj [(''id'', JNum 211),
                            (''name'', JStr ''Active Geometries''),
                            (''path'', JStr ''/dashboard/geometries''),
                            (''module_id'', JNum 1),
                            (''Icon'', JIcon AiOutlineTransaction)],
                      JObj [(''id'', JNum 212),
                            (''name'', JStr ''Active Camera''),
                            (''path'', JStr ''/dashboard/camera''),
                            (''module_id'', JNum 1),
                            (''Icon'', JIcon AiOutlineTransaction)]])],
             JObj [(''id'', JNum 22),
                   (''name'', JStr ''Materials''),
                   (''path'', JStr ''''),
                   (''module_id'', JNum 1),
                   (''Icon'', JIcon AiOutlineTransaction),
                   (''sub'', JArr
                     [JObj [(''id'', JNum 221),
                            (''name'', JStr ''All Materials''),
                            (''path'', JStr ''/dashboard/materials''),
                            (''module_id'', JNum 1),
                            (''Icon'', JIcon AiOutlineTransaction)],
                      JObj [(''id'', JNum 222),
                            (''name'', JStr ''Common Materials''),
                            (''path'', JStr ''/dashboard/common-materials''),
                            (''module_id'', JNum 1),
                            (''Icon'', JIcon AiOutlineTransaction)]])]])],
    JObj [(''id'', JNum 3),
          (''name'', JStr ''Threejs Loading''),
          (''module_id'', JNum 1),
          (''path'', JStr ''''),
          (''Icon'', JIcon AiOutlineTransaction),
          (''sub'', JArr
            [JObj [(''id'', JNum 223),
                   (''name'', JStr ''Loading Multiple Assets''),
                   (''path'', JStr ''/dashboard/loading-multiple-assets''),
                   (''module_id'', JNum 1),
                   (''Icon'', JIcon AiOutlineTransaction)],
             JObj [(''id'', JNum 32),
                   (''name'', JStr ''Loading''),
                   (''path'', JStr ''''),
                   (''module_id'', JNum 1),
                   (''Icon'', JIcon AiOutlineTransaction),
                   (''sub'', JArr
                     [JObj [(''id'', JNum 321),
                            (''name'', JStr ''Loading Multiple ''),
                            (''path'', JStr ''/dashboard/loading-assets''),
                            (''module_id'', JNum 1),
                            (''Icon'', JIcon AiOutlineTransaction)],
                      JObj [(''id'', JNum 322),
                            (''name'', JStr ''Branch Settings''),
                            (''path'', JStr ''/branches/manage/settings''),
                            (''module_id'', JNum 1),
                            (''Icon'', JIcon AiOutlineTransaction)]])]])],
    JObj [(''id'', JNum 5),
          (''name'', JStr ''Geofences''),
          (''module_id'', JNum 1),
          (''path'', JStr ''/geofences/all-geofences''),
          (''Icon'', JIcon PiStudentBold)],
    JObj [(''id'', JNum 9),
          (''name'', JStr ''Groups''),
          (''module_id'', JNum 1),
          (''path'', JStr ''/groups/all-groups''),
          (''Icon'', JIcon PiStudentBold)]]"

text \<open>
  The nodes of the tree under one item: the item itself, then the nodes under each entry
  of its \<open>sub\<close> array, depth first.
\<close>

function items :: "jsval \<Rightarrow> jsval list" where
  "items (JObj kvs) = JObj kvs #
     (case map_of kvs ''sub'' of Some (JArr xs) \<Rightarrow> concat (map items xs) | _ \<Rightarrow> [])"
| "items (JNum v) = []"
| "items (JStr v) = []"
| "items (JIcon v) = []"
| "items (JArr v) = []"
  by pat_completeness auto
termination
proof (relation "measure size")
  show "wf (measure size)" by simp
next
  fix kvs :: "(string \<times> jsval) list" and a xs x
  assume sub: "map_of kvs ''sub'' = Some a" "a = JArr xs" and x: "x \<in> set xs"
  have entry: "map_of ps k = Some v \<Longrightarrow> size v < Suc (size_list (size_prod (\<lambda>_. 0) size) ps)"
    for ps :: "(string \<times> jsval) list" and k v
    by (induction ps) (auto split: if_splits)
  have "size x < size (JArr xs)"
    using x by (induction xs) auto
  moreover have "size (JArr xs) < size (JObj kvs)"
    using entry [of kvs "''sub''" "JArr xs"] sub by simp
  ultimately show "(x, JObj kvs) \<in> measure size" by simp
qed

definition all_items :: "jsval list \<Rightarrow> jsval list" where
  "all_items xs = concat (map items xs)"

text \<open>The typed reads the consumers of the array make: \<open>item.id\<close>, \<open>item.path\<close>, \<open>item.sub\<close>.\<close>

definition item_id :: "jsval \<Rightarrow> int option" where
  "item_id n = (case get_prop ''id'' n of Some (JNum i) \<Rightarrow> Some i | _ \<Rightarrow> None)"

definition item_path :: "jsval \<Rightarrow> string option" where
  "item_path n = (case get_prop ''path'' n of Some (JStr p) \<Rightarrow> Some p | _ \<Rightarrow> None)"

definition item_sub :: "jsval \<Rightarrow> jsval list option" where
  "item_sub n = (case get_prop ''sub'' n of Some (JArr xs) \<Rightarrow> Some xs | _ \<Rightarrow> None)"

section \<open>The viewer components\<close>

text \<open>
  \<open>LoadingMultipleAssets\<close> (the second module of src/utils/dashboardSidebarData.ts) and
  \<open>LoadingAssets\<close> (src/components/Dashboard/LoadingAssets/LoadingAssets.tsx) are React
  components whose whole behaviour is one mount effect. JavaScript runs one callback at a
  time, so a component is modelled as a state and a step function: the effect builds the
  state, and every later callback (a loader's \<open>onLoad\<close> or \<open>onError\<close>, an animation
  frame, a resize, the effect's cleanup) is one step on it. The state holds the variables
  of the effect's closure, the React state, and the part of the page the effect touches.
\<close>

subsection \<open>Values of the rendering library\<close>

type_synonym vec3 = "real \<times> real \<times> real"

type_synonym js_error = string

datatype texmapping = UVMapping | EquirectangularReflectionMapping

text \<open>A loaded texture; \<open>blurriness\<close> is the property the HDR callback sets on it.\<close>

record texture =
  image :: string
  mapping :: texmapping
  blurriness :: "real option"

datatype background = BgTexture texture | BgColor nat

datatype angle = Math_PI

datatype rotation = RotateY angle

datatype material_ref = OwnMaterials | SharedMaterial

text \<open>\<open>gltf.scene\<close>, the root object of a loaded model.\<close>

record group =
  asset :: string
  position :: vec3
  rotations :: "rotation list"
  meshMaterial :: material_ref

datatype geometry = BoxGeometry real real real | PlaneGeometry real real

text \<open>
  The objects the components add to the scene. \<open>Mesh g c r m p\<close> is a mesh of geometry
  \<open>g\<close> with a standard material of colour \<open>c\<close>, roughness \<open>r\<close>, metalness \<open>m\<close>, at
  position \<open>p\<close>; \<open>PlaneMesh\<close> is the ground plane of \<open>LoadingAssets\<close>, which uses the
  component's shared material.
\<close>

datatype object3d =
    AmbientLight nat real
  | DirectionalLight nat real vec3
  | GridHelper nat nat vec3
  | Mesh geometry nat real real vec3
  | PlaneMesh geometry
  | Model group

datatype logline = ConsoleLog string | ConsoleError string js_error

datatype loader = HDRLoader | GLTFLoader | TextureLoader

text \<open>
  One call \<open>loader.load(url, onLoad, onProgress, onError)\<close>: the flags say which of the
  three callbacks were passed (\<open>False\<close> for \<open>undefined\<close>).
\<close>

record request =
  loader :: loader
  url :: string
  onLoad :: bool
  onProgress :: bool
  onError :: bool

datatype dom = RendererDomElement | StatsDom | OtherNode nat

subsection \<open>The page and the state of a mounted viewer\<close>

text \<open>
  What the effect finds when it runs: whether the two refs point to their \<open>div\<close>s, the
  children of those \<open>div\<close>s, the window and container sizes, and the browser's animation
  frame callback identifier (the handle it issued last).
\<close>

record page =
  p_mountRef :: bool
  p_statsRef :: bool
  p_mountDiv :: "dom list"
  p_statsDiv :: "dom list"
  innerWidth :: nat
  innerHeight :: nat
  clientWidth :: nat
  clientHeight :: nat
  p_frameCounter :: nat
  p_console :: "logline list"

text \<open>
  The state both components share. \<open>frameCallbacks\<close> holds the handles of the pending
  animation frame requests whose callback is this component's \<open>animate\<close>;
  \<open>resizeListener\<close> says whether \<open>handleResize\<close> is registered on the window;
  \<open>cameraAspect\<close> keeps the two numbers whose quotient the source stores; \<open>rendered\<close>
  counts the calls of \<open>renderer.render\<close>.
\<close>

record viewer =
  mountRef :: bool
  statsRef :: bool
  mountDiv :: "dom list"
  statsDiv :: "dom list"
  resizeListener :: bool
  frameCounter :: nat
  frameCallbacks :: "nat list"
  console :: "logline list"
  scene :: "object3d list"
  environment :: "texture option"
  background :: "background option"
  cameraAspect :: "nat \<times> nat"
  rendererSize :: "nat \<times> nat"
  requests :: "request list"
  animationFrameId :: "nat option"
  rendered :: nat
  rendererDisposed :: bool
  controlsDisposed :: bool

text \<open>The events a mounted component reacts to; \<open>'l\<close> is the completion of one of its loads.\<close>

datatype 'l event =
    Completion 'l
  | AnimationFrame
  | WindowResize nat nat
  | ForeignFrameRequest
  | RefsDetached
  | Unmount

subsection \<open>The render loop\<close>

text \<open>
  \<open>requestAnimationFrame\<close> increments the identifier and queues the callback under the new
  handle, so every handle is at least 1. \<open>animate\<close> is the same function in both
  components: it requests the next frame, then updates the controls, renders and updates
  the stats panel.
\<close>

definition requestAnimationFrame :: "'a viewer_scheme \<Rightarrow> nat \<times> 'a viewer_scheme" where
  "requestAnimationFrame s =
     (let handle = frameCounter s + 1
      in (handle, s\<lparr>frameCounter := handle, frameCallbacks := frameCallbacks s @ [handle]\<rparr>))"

definition cancelAnimationFrame :: "nat \<Rightarrow> 'a viewer_scheme \<Rightarrow> 'a viewer_scheme" where
  "cancelAnimationFrame handle s = s\<lparr>frameCallbacks := removeAll handle (frameCallbacks s)\<rparr>"

definition animate :: "'a viewer_scheme \<Rightarrow> 'a viewer_scheme" where
  "animate s =
     (let (handle, s) = requestAnimationFrame s;
          s = s\<lparr>animationFrameId := Some handle\<rparr>
      in s\<lparr>rendered := rendered s + 1\<rparr>)"

text \<open>
  One animation frame of the browser: the queued callbacks are taken off the queue and
  run in order; a request made while they run waits for the next frame.
\<close>

definition run_frame :: "'a viewer_scheme \<Rightarrow> 'a viewer_scheme" where
  "run_frame s = fold (\<lambda>handle. animate) (frameCallbacks s) (s\<lparr>frameCallbacks := []\<rparr>)"

text \<open>Another script's request uses up a handle; its callback is not this component's.\<close>

definition foreign_request :: "'a viewer_scheme \<Rightarrow> 'a viewer_scheme" where
  "foreign_request s = s\<lparr>frameCounter := frameCounter s + 1\<rparr>"

text \<open>React clears the refs when the \<open>div\<close>s leave the document.\<close>

definition detach_refs :: "'a viewer_scheme \<Rightarrow> 'a viewer_scheme" where
  "detach_refs s = s\<lparr>mountRef := False, statsRef := False\<rparr>"

text \<open>
  The part of the cleanup that both components share, in source order up to
  \<open>renderer.dispose()\<close>: remove the resize listener, cancel the frame request if
  \<open>animationFrameId\<close> is truthy (set and not 0), remove the canvas and the stats panel if
  the ref is set and its \<open>div\<close> contains the node, dispose the renderer.
\<close>

definition cleanup_common :: "'a viewer_scheme \<Rightarrow> 'a viewer_scheme" where
  "cleanup_common s =
     (let s = s\<lparr>resizeListener := False\<rparr>;
          s = (case animationFrameId s of
                 Some handle \<Rightarrow> if handle \<noteq> 0 then cancelAnimationFrame handle s else s
               | None \<Rightarrow> s);
          s = (if mountRef s \<and> RendererDomElement \<in> set (mountDiv s)
               then s\<lparr>mountDiv := remove1 RendererDomElement (mountDiv s)\<rparr> else s);
          s = (if statsRef s \<and> StatsDom \<in> set (statsDiv s)
               then s\<lparr>statsDiv := remove1 StatsDom (statsDiv s)\<rparr> else s)
      in s\<lparr>rendererDisposed := True\<rparr>)"

subsection \<open>States of the render loop\<close>

text \<open>
  The loop is pending when exactly one frame request of the component is queued and
  \<open>animationFrameId\<close> holds its handle; it is stopped when none is queued.
\<close>

definition loop_pending :: "'a viewer_scheme \<Rightarrow> bool" where
  "loop_pending s =
     (case animationFrameId s of
        Some handle \<Rightarrow> handle \<noteq> 0 \<and> frameCallbacks s = [handle]
      | None \<Rightarrow> False)"

definition loop_stopped :: "'a viewer_scheme \<Rightarrow> bool" where
  "loop_stopped s = (frameCallbacks s = [])"

text \<open>
  The two container \<open>div\<close>s hold at most the node the effect appended: the effect empties
  them first, and nothing else in the component adds to them.
\<close>

definition dom_inv :: "'a viewer_scheme \<Rightarrow> bool" where
  "dom_inv s = ((mountDiv s = [RendererDomElement] \<or> mountDiv s = []) \<and>
                (statsDiv s = [StatsDom] \<or> statsDiv s = []))"

subsection \<open>LoadingMultipleAssets\<close>

record lma_state = viewer +
  modelsLoaded :: nat
  loading :: bool
  error :: "string option"

definition totalModels :: nat where
  "totalModels = 5"

record wheelPos =
  pos_x :: real
  pos_y :: real
  pos_z :: real
  pos_rotate :: bool

definition wheelPositions :: "wheelPos list" where
  "wheelPositions =
    [\<lparr>pos_x = - 0.65, pos_y = 0.2, pos_z = - 0.77, pos_rotate = False\<rparr>,
     \<lparr>pos_x = 0.65, pos_y = 0.2, pos_z = - 0.77, pos_rotate = True\<rparr>,
     \<lparr>pos_x = - 0.65, pos_y = 0.2, pos_z = 0.57, pos_rotate = False\<rparr>,
     \<lparr>pos_x = 0.65, pos_y = 0.2, pos_z = 0.57, pos_rotate = True\<rparr>]"

text \<open>Decimal digits of a number, for the template strings \<open>`Wheel ${index + 1} loaded`\<close>.\<close>

definition digit :: "nat \<Rightarrow> char" where
  "digit d = ''0123456789'' ! d"

function show_nat :: "nat \<Rightarrow> string" where
  "show_nat n = (if n < 10 then [digit n] else show_nat (n div 10) @ [digit (n mod 10)])"
  by pat_completeness auto
termination
  by (relation "measure id") auto

text \<open>
  \<open>modelsLoaded++; if (modelsLoaded === totalModels) setLoading(false);\<close>, the two lines
  that end each of the model callbacks.
\<close>

definition model_done :: "lma_state \<Rightarrow> lma_state" where
  "model_done s =
     (let s = s\<lparr>modelsLoaded := modelsLoaded s + 1\<rparr>
      in if modelsLoaded s = totalModels then s\<lparr>loading := False\<rparr> else s)"

text \<open>
  The HDR callbacks. The texture is one object: the assignment to \<open>blurriness\<close> through
  \<open>scene.background\<close> is seen through \<open>scene.environment\<close> too.
\<close>

definition hdr_onLoad :: "texture \<Rightarrow> lma_state \<Rightarrow> lma_state" where
  "hdr_onLoad tex s =
     (let tex = tex\<lparr>mapping := EquirectangularReflectionMapping\<rparr>;
          tex = tex\<lparr>blurriness := Some 1.0\<rparr>;
          s = s\<lparr>environment := Some tex\<rparr>;
          s = s\<lparr>background := Some (BgTexture tex)\<rparr>
      in s\<lparr>console := console s @ [ConsoleLog ''HDR loaded successfully'']\<rparr>)"

definition hdr_onError :: "js_error \<Rightarrow> lma_state \<Rightarrow> lma_state" where
  "hdr_onError err s =
     (let s = s\<lparr>console := console s @ [ConsoleError ''Error loading HDR:'' err]\<rparr>;
          s = s\<lparr>error := Some ''Failed to load HDR environment. Using fallback.''\<rparr>
      in s\<lparr>background := Some (BgColor 0x87ceeb)\<rparr>)"

definition fallback_cube :: object3d where
  "fallback_cube = Mesh (BoxGeometry 1 1 1) 0xff0000 0.7 0.3 (0, 0.5, 0)"

definition createFallbackModel :: "lma_state \<Rightarrow> lma_state" where
  "createFallbackModel s =
     (let s = s\<lparr>scene := scene s @ [fallback_cube]\<rparr>
      in s\<lparr>console := console s @ [ConsoleLog ''Created fallback cube'']\<rparr>)"

definition body_onLoad :: "group \<Rightarrow> lma_state \<Rightarrow> lma_state" where
  "body_onLoad gltf s =
     (let s = s\<lparr>console := console s @ [ConsoleLog ''SUV body loaded'']\<rparr>;
          s = s\<lparr>scene := scene s @ [Model gltf]\<rparr>
      in model_done s)"

definition body_onError :: "js_error \<Rightarrow> lma_state \<Rightarrow> lma_state" where
  "body_onError err s =
     (let s = s\<lparr>console := console s @ [ConsoleError ''Error loading SUV body:'' err]\<rparr>;
          s = s\<lparr>error := Some ''Failed to load SUV model. Using fallback.''\<rparr>;
          s = createFallbackModel s
      in model_done s)"

definition wheel_onLoad :: "wheelPos \<Rightarrow> nat \<Rightarrow> group \<Rightarrow> lma_state \<Rightarrow> lma_state" where
  "wheel_onLoad pos index gltf s =
     (let s = s\<lparr>console := console s @ [ConsoleLog (''Wheel '' @ show_nat (index + 1) @ '' loaded'')]\<rparr>;
          gltf = gltf\<lparr>position := (pos_x pos, pos_y pos, pos_z pos)\<rparr>;
          gltf = (if pos_rotate pos then gltf\<lparr>rotations := rotations gltf @ [RotateY Math_PI]\<rparr>
                  else gltf);
          s = s\<lparr>scene := scene s @ [Model gltf]\<rparr>
      in model_done s)"

definition wheel_onError :: "nat \<Rightarrow> js_error \<Rightarrow> lma_state \<Rightarrow> lma_state" where
  "wheel_onError index err s =
     (let s = s\<lparr>console := console s @
                [ConsoleError (''Error loading wheel '' @ show_nat (index + 1) @ '':'') err]\<rparr>
      in model_done s)"

text \<open>
  The completions of the six loads. The wheel callbacks are the closures that
  \<open>wheelPositions.forEach((pos, index) => ...)\<close> creates: the one of index \<open>i\<close> holds
  \<open>pos = wheelPositions[i]\<close>; no callback exists for an index outside the list.
\<close>

datatype lma_load =
    HdrLoaded texture
  | HdrFailed js_error
  | BodyLoaded group
  | BodyFailed js_error
  | WheelLoaded nat group
  | WheelFailed nat js_error

fun lma_complete :: "lma_load \<Rightarrow> lma_state \<Rightarrow> lma_state" where
  "lma_complete (HdrLoaded tex) s = hdr_onLoad tex s"
| "lma_complete (HdrFailed err) s = hdr_onError err s"
| "lma_complete (BodyLoaded gltf) s = body_onLoad gltf s"
| "lma_complete (BodyFailed err) s = body_onError err s"
| "lma_complete (WheelLoaded i gltf) s =
     (if i < length wheelPositions then wheel_onLoad (wheelPositions ! i) i gltf s else s)"
| "lma_complete (WheelFailed i err) s =
     (if i < length wheelPositions then wheel_onError i err s else s)"

definition lma_handleResize :: "nat \<Rightarrow> nat \<Rightarrow> lma_state \<Rightarrow> lma_state" where
  "lma_handleResize w h s = s\<lparr>cameraAspect := (w, h), rendererSize := (w, h)\<rparr>"

definition lma_cleanup :: "lma_state \<Rightarrow> lma_state" where
  "lma_cleanup s = (let s = cleanup_common s in s\<lparr>controlsDisposed := True\<rparr>)"

text \<open>
  The mount effect. It returns \<open>None\<close> when a ref is not set: the source returns before
  it has built anything, and without a cleanup function.
\<close>

definition lma_effect :: "page \<Rightarrow> lma_state option" where
  "lma_effect p =
     (if \<not> p_mountRef p \<or> \<not> p_statsRef p then None
      else
        let s = \<lparr>mountRef = True, statsRef = True,
                 mountDiv = [], statsDiv = [],
                 resizeListener = False,
                 frameCounter = p_frameCounter p, frameCallbacks = [],
                 console = p_console p,
                 scene = [], environment = None, background = None,
                 cameraAspect = (innerWidth p, innerHeight p),
                 rendererSize = (innerWidth p, innerHeight p),
                 requests = [], animationFrameId = None, rendered = 0,
                 rendererDisposed = False, controlsDisposed = False,
                 modelsLoaded = 0, loading = True, error = None\<rparr>;
            s = s\<lparr>mountDiv := mountDiv s @ [RendererDomElement]\<rparr>;
            s = s\<lparr>resizeListener := True\<rparr>;
            s = s\<lparr>scene := scene s @ [AmbientLight 0xffffff 0.5]\<rparr>;
            s = s\<lparr>scene := scene s @ [DirectionalLight 0xffffff 0.8 (5, 10, 7)]\<rparr>;
            s = s\<lparr>requests := requests s @
                  [\<lparr>loader = HDRLoader, url = ''/img/venice_sunset_1k.hdr'',
                    onLoad = True, onProgress = False, onError = True\<rparr>]\<rparr>;
            s = s\<lparr>requests := requests s @
                  [\<lparr>loader = GLTFLoader, url = ''/models/suv_body.glb'',
                    onLoad = True, onProgress = False, onError = True\<rparr>]\<rparr>;
            s = fold (\<lambda>pos s. s\<lparr>requests := requests s @
                  [\<lparr>loader = GLTFLoader, url = ''/models/suv_wheel.glb'',
                    onLoad = True, onProgress = False, onError = True\<rparr>]\<rparr>) wheelPositions s;
            s = s\<lparr>scene := scene s @ [GridHelper 10 10 (0, - 0.5, 0)]\<rparr>;
            s = s\<lparr>statsDiv := statsDiv s @ [StatsDom]\<rparr>
        in Some (animate s))"

fun lma_step :: "lma_load event \<Rightarrow> lma_state \<Rightarrow> lma_state" where
  "lma_step (Completion l) s = lma_complete l s"
| "lma_step AnimationFrame s = run_frame s"
| "lma_step (WindowResize w h) s = (if resizeListener s then lma_handleResize w h s else s)"
| "lma_step ForeignFrameRequest s = foreign_request s"
| "lma_step RefsDetached s = detach_refs s"
| "lma_step Unmount s = lma_cleanup s"

definition lma_run :: "lma_load event list \<Rightarrow> lma_state \<Rightarrow> lma_state" where
  "lma_run evs s = fold lma_step evs s"

text \<open>The completions of the five GLTF model loads (one body, four wheels).\<close>

fun is_model_completion :: "lma_load event \<Rightarrow> bool" where
  "is_model_completion (Completion (BodyLoaded gltf)) = True"
| "is_model_completion (Completion (BodyFailed err)) = True"
| "is_model_completion (Completion (WheelLoaded i gltf)) = (i < length wheelPositions)"
| "is_model_completion (Completion (WheelFailed i err)) = (i < length wheelPositions)"
| "is_model_completion _ = False"

fun is_hdr_completion :: "lma_load event \<Rightarrow> bool" where
  "is_hdr_completion (Completion (HdrLoaded tex)) = True"
| "is_hdr_completion (Completion (HdrFailed err)) = True"
| "is_hdr_completion _ = False"

subsection \<open>LoadingAssets\<close>

text \<open>
  The component keeps one \<open>MeshStandardMaterial\<close>, shared by the ground plane and by the
  meshes of the loaded model; the texture callback sets its \<open>map\<close>. The cleanup disposes
  the map (if set), the material and the plane geometry besides the renderer and the
  controls.
\<close>

record la_state = viewer +
  materialMap :: "texture option"
  materialNeedsUpdate :: bool
  mapDisposed :: bool
  materialDisposed :: bool
  planeGeometryDisposed :: bool

definition hdr :: string where
  "hdr = ''https://sbcode.net/img/venice_sunset_1k.hdr''"

definition image_url :: string where
  "image_url = ''https://sbcode.net/img/grid.png''"

definition model :: string where
  "model = ''https://sbcode.net/models/suzanne_no_material.glb''"

definition la_hdr_onLoad :: "texture \<Rightarrow> la_state \<Rightarrow> la_state" where
  "la_hdr_onLoad tex s =
     (let tex = tex\<lparr>mapping := EquirectangularReflectionMapping\<rparr>;
          s = s\<lparr>environment := Some tex\<rparr>
      in s\<lparr>background := Some (BgTexture tex)\<rparr>)"

definition la_hdr_onError :: "js_error \<Rightarrow> la_state \<Rightarrow> la_state" where
  "la_hdr_onError err s = s\<lparr>console := console s @ [ConsoleError ''Error loading HDR:'' err]\<rparr>"

definition la_texture_onLoad :: "texture \<Rightarrow> la_state \<Rightarrow> la_state" where
  "la_texture_onLoad tex s =
     (let s = s\<lparr>materialMap := Some tex\<rparr>
      in s\<lparr>materialNeedsUpdate := True\<rparr>)"

definition la_texture_onError :: "js_error \<Rightarrow> la_state \<Rightarrow> la_state" where
  "la_texture_onError err s =
     s\<lparr>console := console s @ [ConsoleError ''Error loading texture:'' err]\<rparr>"

definition la_model_onLoad :: "group \<Rightarrow> la_state \<Rightarrow> la_state" where
  "la_model_onLoad gltf s =
     (let gltf = gltf\<lparr>meshMaterial := SharedMaterial\<rparr>
      in s\<lparr>scene := scene s @ [Model gltf]\<rparr>)"

definition la_model_onError :: "js_error \<Rightarrow> la_state \<Rightarrow> la_state" where
  "la_model_onError err s =
     s\<lparr>console := console s @ [ConsoleError ''Error loading model:'' err]\<rparr>"

datatype la_load =
    LaHdrLoaded texture
  | LaHdrFailed js_error
  | LaTextureLoaded texture
  | LaTextureFailed js_error
  | LaModelLoaded group
  | LaModelFailed js_error

fun la_complete :: "la_load \<Rightarrow> la_state \<Rightarrow> la_state" where
  "la_complete (LaHdrLoaded tex) s = la_hdr_onLoad tex s"
| "la_complete (LaHdrFailed err) s = la_hdr_onError err s"
| "la_complete (LaTextureLoaded tex) s = la_texture_onLoad tex s"
| "la_complete (LaTextureFailed err) s = la_texture_onError err s"
| "la_complete (LaModelLoaded gltf) s = la_model_onLoad gltf s"
| "la_complete (LaModelFailed err) s = la_model_onError err s"

text \<open>
  \<open>handleResize\<close> reads the container's size through \<open>mountRef.current!\<close>: with the ref
  cleared the read throws before anything is assigned, and the state stays as it was.
\<close>

definition la_handleResize :: "nat \<Rightarrow> nat \<Rightarrow> la_state \<Rightarrow> la_state" where
  "la_handleResize w h s =
     (if mountRef s then s\<lparr>cameraAspect := (w, h), rendererSize := (w, h)\<rparr> else s)"

definition la_cleanup :: "la_state \<Rightarrow> la_state" where
  "la_cleanup s =
     (let s = cleanup_common s;
          s = (if materialMap s \<noteq> None then s\<lparr>mapDisposed := True\<rparr> else s);
          s = s\<lparr>materialDisposed := True\<rparr>;
          s = s\<lparr>planeGeometryDisposed := True\<rparr>
      in s\<lparr>controlsDisposed := True\<rparr>)"

definition la_effect :: "page \<Rightarrow> la_state option" where
  "la_effect p =
     (if \<not> p_mountRef p \<or> \<not> p_statsRef p then None
      else
        let s = \<lparr>mountRef = True, statsRef = True,
                 mountDiv = [], statsDiv = [],
                 resizeListener = False,
                 frameCounter = p_frameCounter p, frameCallbacks = [],
                 console = p_console p,
                 scene = [], environment = None, background = None,
                 cameraAspect = (innerWidth p, innerHeight p),
                 rendererSize = (clientWidth p, clientHeight p),
                 requests = [], animationFrameId = None, rendered = 0,
                 rendererDisposed = False, controlsDisposed = False,
                 materialMap = None, materialNeedsUpdate = False,
                 mapDisposed = False, materialDisposed = False,
                 planeGeometryDisposed = False\<rparr>;
            s = s\<lparr>requests := requests s @
                  [\<lparr>loader = HDRLoader, url = hdr,
                    onLoad = True, onProgress = False, onError = True\<rparr>]\<rparr>;
            s = (if mountRef s then s\<lparr>mountDiv := mountDiv s @ [RendererDomElement]\<rparr> else s);
            s = s\<lparr>resizeListener := True\<rparr>;
            s = s\<lparr>requests := requests s @
                  [\<lparr>loader = TextureLoader, url = image_url,
                    onLoad = True, onProgress = False, onError = True\<rparr>]\<rparr>;
            s = s\<lparr>scene := scene s @ [PlaneMesh (PlaneGeometry 10 10)]\<rparr>;
            s = s\<lparr>requests := requests s @
                  [\<lparr>loader = GLTFLoader, url = model,
                    onLoad = True, onProgress = False, onError = True\<rparr>]\<rparr>;
            s = s\<lparr>scene := scene s @ [AmbientLight 0xffffff 0.5]\<rparr>;
            s = s\<lparr>scene := scene s @ [DirectionalLight 0xffffff 0.8 (5, 10, 7)]\<rparr>;
            s = (if statsRef s then s\<lparr>statsDiv := statsDiv s @ [StatsDom]\<rparr> else s)
        in Some (animate s))"

fun la_step :: "la_load event \<Rightarrow> la_state \<Rightarrow> la_state" where
  "la_step (Completion l) s = la_complete l s"
| "la_step AnimationFrame s = run_frame s"
| "la_step (WindowResize w h) s = (if resizeListener s then la_handleResize w h s else s)"
| "la_step ForeignFrameRequest s = foreign_request s"
| "la_step RefsDetached s = detach_refs s"
| "la_step Unmount s = la_cleanup s"

definition la_run :: "la_load event list \<Rightarrow> la_state \<Rightarrow> la_state" where
  "la_run evs s = fold la_step evs s"

subsection \<open>Example inputs\<close>

text \<open>A page with both refs set, a loaded texture and a loaded model, used in the examples.\<close>

definition example_page :: page where
  "example_page =
     \<lparr>p_mountRef = True, p_statsRef = True, p_mountDiv = [OtherNode 0], p_statsDiv = [],
      innerWidth = 1280, innerHeight = 720, clientWidth = 1024, clientHeight = 648,
      p_frameCounter = 41, p_console = []\<rparr>"

definition example_texture :: texture where
  "example_texture = \<lparr>image = ''venice_sunset_1k'', mapping = UVMapping, blurriness = None\<rparr>"

definition example_group :: group where
  "example_group =
     \<lparr>asset = ''suv_wheel'', position = (0, 0, 0), rotations = [], meshMaterial = OwnMaterials\<rparr>"

section \<open>Properties of the sidebar data\<close>

lemma all_items_SidebarItemsData_ids:
  "map item_id (all_items SidebarItemsData) =
   map Some [1, 2, 21, 211, 212, 22, 221, 222, 3, 223, 32, 321, 322, 5, 9]"
  by (simp add: all_items_def SidebarItemsData_def item_id_def)

text \<open>
  C3. In \<open>SidebarItemsData\<close> the \<open>id\<close> fields of all nodes, at every nesting depth, are
  pairwise distinct (and every node has a numeric \<open>id\<close>).
\<close>

theorem sidebar_ids_distinct:
  "distinct (map item_id (all_items SidebarItemsData)) \<and>
   None \<notin> set (map item_id (all_items SidebarItemsData)) \<and>
   length (all_items SidebarItemsData) = 15"
proof -
  have "length (map item_id (all_items SidebarItemsData)) = 15"
    by (simp only: all_items_SidebarItemsData_ids) simp
  then have len: "length (all_items SidebarItemsData) = 15"
    by (simp only: length_map)
  have dist: "distinct (map item_id (all_items SidebarItemsData))"
    by (simp only: all_items_SidebarItemsData_ids) simp
  have some: "None \<notin> set (map item_id (all_items SidebarItemsData))"
    by (simp only: all_items_SidebarItemsData_ids) simp
  from dist some len show ?thesis by blast
qed

lemma required_fields_eq: "required_fields = [''id'', ''name'', ''module_id'', ''path'', ''Icon'']"
  by (simp add: required_fields_def SidebarItem_def)

lemma all_items_paths:
  "map (\<lambda>n. (item_path n, item_sub n \<noteq> None)) (all_items SidebarItemsData) =
   [(Some ''/'', False), (Some '''', True), (Some '''', True),
    (Some ''/dashboard/geometries'', False), (Some ''/dashboard/camera'', False),
    (Some '''', True),
    (Some ''/dashboard/materials'', False), (Some ''/dashboard/common-materials'', False),
    (Some '''', True),
    (Some ''/dashboard/loading-multiple-assets'', False),
    (Some '''', True),
    (Some ''/dashboard/loading-assets'', False), (Some ''/branches/manage/settings'', False),
    (Some ''/geofences/all-geofences'', False), (Some ''/groups/all-groups'', False)]"
  by (simp add: all_items_def SidebarItemsData_def item_path_def item_sub_def)

text \<open>
  C8. In \<open>SidebarItemsData\<close> every node has a string \<open>path\<close>, and the path is the empty
  string if and only if the node has a \<open>sub\<close> list: every leaf has a non-empty path and
  every node with children has an empty one.
\<close>

theorem sidebar_path_empty_iff_sub:
  "\<forall>n \<in> set (all_items SidebarItemsData).
     (\<exists>p. item_path n = Some p) \<and> ((item_path n = Some '''') = (item_sub n \<noteq> None))"
proof -
  have "\<forall>q \<in> set (map (\<lambda>n. (item_path n, item_sub n \<noteq> None)) (all_items SidebarItemsData)).
          (\<exists>p. fst q = Some p) \<and> ((fst q = Some '''') = snd q)"
    by (simp only: all_items_paths) simp
  then show ?thesis by simp
qed

text \<open>
  The property at two nodes of the array: the parent with id 2 (empty path, a \<open>sub\<close> list)
  and the leaf with id 1 (path \<open>/\<close>, no \<open>sub\<close>).
\<close>

theorem sidebar_path_empty_iff_sub_witness:
  "SidebarItemsData ! 1 \<in> set (all_items SidebarItemsData) \<and>
   item_path (SidebarItemsData ! 1) = Some '''' \<and> item_sub (SidebarItemsData ! 1) \<noteq> None \<and>
   SidebarItemsData ! 0 \<in> set (all_items SidebarItemsData) \<and>
   item_path (SidebarItemsData ! 0) = Some ''/'' \<and> item_sub (SidebarItemsData ! 0) = None"
proof -
  have m1: "SidebarItemsData ! 1 \<in> set (all_items SidebarItemsData)"
    by (simp add: all_items_def SidebarItemsData_def)
  have m0: "SidebarItemsData ! 0 \<in> set (all_items SidebarItemsData)"
    by (simp add: all_items_def SidebarItemsData_def)
  have p0: "item_path (SidebarItemsData ! 0) = Some ''/''"
    by (simp add: SidebarItemsData_def item_path_def)
  from sidebar_path_empty_iff_sub m1 m0 p0 show ?thesis
    by (auto simp: SidebarItemsData_def item_path_def item_sub_def)
qed

text \<open>
  C6, as stated, fails: the first node of the array carries a key, \<open>module_id\<close>, that is
  not among the fields the specification's data model lists.
\<close>

theorem sidebar_node_fields_counterexample:
  "\<not> set (own_keys (SidebarItemsData ! 0)) \<subseteq> set spec_node_fields"
  by (simp add: SidebarItemsData_def spec_node_fields_def)

lemma all_items_keys:
  "map own_keys (all_items SidebarItemsData) =
   [[''id'', ''name'', ''module_id'', ''path'', ''Icon''],
    [''id'', ''name'', ''module_id'', ''path'', ''Icon'', ''sub''],
    [''id'', ''name'', ''path'', ''module_id'', ''Icon'', ''sub''],
    [''id'', ''name'', ''path'', ''module_id'', ''Icon''],
    [''id'', ''name'', ''path'', ''module_id'', ''Icon''],
    [''id'', ''name'', ''path'', ''module_id'', ''Icon'', ''sub''],
    [''id'', ''name'', ''path'', ''module_id'', ''Icon''],
    [''id'', ''name'', ''path'', ''module_id'', ''Icon''],
    [''id'', ''name'', ''module_id'', ''path'', ''Icon'', ''sub''],
    [''id'', ''name'', ''path'', ''module_id'', ''Icon''],
    [''id'', ''name'', ''path'', ''module_id'', ''Icon'', ''sub''],
    [''id'', ''name'', ''path'', ''module_id'', ''Icon''],
    [''id'', ''name'', ''path'', ''module_id'', ''Icon''],
    [''id'', ''name'', ''module_id'', ''path'', ''Icon''],
    [''id'', ''name'', ''module_id'', ''path'', ''Icon'']]"
  by (simp add: all_items_def SidebarItemsData_def)

lemma node_fields_of_keys:
  assumes "ks = [''id'', ''name'', ''module_id'', ''path'', ''Icon''] \<or>
           ks = [''id'', ''name'', ''path'', ''module_id'', ''Icon''] \<or>
           ks = [''id'', ''name'', ''module_id'', ''path'', ''Icon'', ''sub''] \<or>
           ks = [''id'', ''name'', ''path'', ''module_id'', ''Icon'', ''sub'']"
  shows "distinct ks \<and>
     set ks - {''sub''} = {''id'', ''name'', ''module_id'', ''path'', ''Icon''} \<and>
     set ks \<subseteq> set declared_fields \<and> set required_fields \<subseteq> set ks"
proof -
  have d: "distinct ks" using assms by auto
  have e: "set ks - {''sub''} = {''id'', ''name'', ''module_id'', ''path'', ''Icon''}"
    using assms by auto
  have s1: "set ks \<subseteq> set declared_fields"
    using assms by (auto simp: declared_fields_def SidebarItem_def)
  have s2: "set required_fields \<subseteq> set ks"
    using assms by (auto simp: required_fields_eq)
  from d e s1 s2 show ?thesis by blast
qed

text \<open>
  C6, amended. Every node of the tree consists of exactly the fields \<open>id\<close>, \<open>name\<close>,
  \<open>module_id\<close>, \<open>path\<close> and \<open>Icon\<close>, each once, and optionally \<open>sub\<close>: the required and
  the declared fields of the interface \<open>SidebarItem\<close>.
\<close>

theorem sidebar_node_fields:
  "\<forall>n \<in> set (all_items SidebarItemsData).
     distinct (own_keys n) \<and>
     set (own_keys n) - {''sub''} = {''id'', ''name'', ''module_id'', ''path'', ''Icon''} \<and>
     set (own_keys n) \<subseteq> set declared_fields \<and> set required_fields \<subseteq> set (own_keys n)"
proof
  fix n assume "n \<in> set (all_items SidebarItemsData)"
  then have "own_keys n \<in> set (map own_keys (all_items SidebarItemsData))"
    by simp
  then have "own_keys n = [''id'', ''name'', ''module_id'', ''path'', ''Icon''] \<or>
           own_keys n = [''id'', ''name'', ''path'', ''module_id'', ''Icon''] \<or>
           own_keys n = [''id'', ''name'', ''module_id'', ''path'', ''Icon'', ''sub''] \<or>
           own_keys n = [''id'', ''name'', ''path'', ''module_id'', ''Icon'', ''sub'']"
    unfolding all_items_keys by auto
  then show "distinct (own_keys n) \<and>
     set (own_keys n) - {''sub''} = {''id'', ''name'', ''module_id'', ''path'', ''Icon''} \<and>
     set (own_keys n) \<subseteq> set declared_fields \<and> set required_fields \<subseteq> set (own_keys n)"
    by (rule node_fields_of_keys)
qed

text \<open>The amended property at the node with id 2, which has all six fields.\<close>

theorem sidebar_node_fields_witness:
  "SidebarItemsData ! 1 \<in> set (all_items SidebarItemsData) \<and>
   own_keys (SidebarItemsData ! 1) = [''id'', ''name'', ''module_id'', ''path'', ''Icon'', ''sub''] \<and>
   set (own_keys (SidebarItemsData ! 1)) - {''sub''} = {''id'', ''name'', ''module_id'', ''path'', ''Icon''}"
proof -
  have m1: "SidebarItemsData ! 1 \<in> set (all_items SidebarItemsData)"
    by (simp add: all_items_def SidebarItemsData_def)
  have k: "own_keys (SidebarItemsData ! 1) = [''id'', ''name'', ''module_id'', ''path'', ''Icon'', ''sub'']"
    by (simp add: SidebarItemsData_def)
  have "set (own_keys (SidebarItemsData ! 1)) - {''sub''} = {''id'', ''name'', ''module_id'', ''path'', ''Icon''}"
    using sidebar_node_fields [THEN bspec, OF m1] by (rule conjunct2 [THEN conjunct1])
  with m1 k show ?thesis by (intro conjI)
qed

section \<open>Properties of LoadingMultipleAssets\<close>

lemmas lma_callback_defs =
  hdr_onLoad_def hdr_onError_def body_onLoad_def body_onError_def wheel_onLoad_def
  wheel_onError_def createFallbackModel_def model_done_def

lemma fold_animate_modelsLoaded:
  "modelsLoaded (fold (\<lambda>handle. animate) hs t) = modelsLoaded t"
  by (induction hs arbitrary: t) (simp_all add: animate_def requestAnimationFrame_def Let_def)

lemma fold_animate_loading:
  "loading (fold (\<lambda>handle. animate) hs t) = loading t"
  by (induction hs arbitrary: t) (simp_all add: animate_def requestAnimationFrame_def Let_def)

lemma run_frame_modelsLoaded [simp]: "modelsLoaded (run_frame s) = modelsLoaded s"
  by (simp add: run_frame_def fold_animate_modelsLoaded)

lemma run_frame_loading [simp]: "loading (run_frame s) = loading s"
  by (simp add: run_frame_def fold_animate_loading)

lemma cleanup_common_modelsLoaded [simp]: "modelsLoaded (cleanup_common s) = modelsLoaded s"
  by (simp add: cleanup_common_def cancelAnimationFrame_def Let_def split: option.splits)

lemma cleanup_common_loading [simp]: "loading (cleanup_common s) = loading s"
  by (simp add: cleanup_common_def cancelAnimationFrame_def Let_def split: option.splits)

lemma lma_step_modelsLoaded:
  "modelsLoaded (lma_step e s) = modelsLoaded s + (if is_model_completion e then 1 else 0)"
proof (cases e)
  case (Completion l)
  then show ?thesis by (cases l) (simp_all add: lma_callback_defs Let_def)
qed (simp_all add: lma_handleResize_def foreign_request_def detach_refs_def lma_cleanup_def Let_def)

lemma lma_step_loading:
  "loading (lma_step e s) =
     (loading s \<and> \<not> (is_model_completion e \<and> modelsLoaded s + 1 = totalModels))"
proof (cases e)
  case (Completion l)
  then show ?thesis by (cases l) (simp_all add: lma_callback_defs Let_def)
qed (simp_all add: lma_handleResize_def foreign_request_def detach_refs_def lma_cleanup_def Let_def)

lemma lma_run_snoc: "lma_run (evs @ [e]) s = lma_step e (lma_run evs s)"
  by (simp add: lma_run_def)

lemma lma_effect_counter:
  "lma_effect p = Some s0 \<Longrightarrow> modelsLoaded s0 = 0 \<and> loading s0"
  by (auto simp: lma_effect_def animate_def requestAnimationFrame_def Let_def wheelPositions_def
           split: if_splits)

text \<open>
  C1. The five model loads of \<open>LoadingMultipleAssets\<close> are coordinated by the counter
  \<open>modelsLoaded\<close> alone. After any sequence of events on a mounted component, in which the
  success and error callbacks of the loads may come in any order and interleaved with
  anything else, the counter is the number of model completions so far (each one adds
  exactly one), and \<open>loading\<close> is true exactly while that number is below 5: the
  completion that makes the counter 5 sets it to false.
\<close>

theorem lma_completion_counter:
  assumes "lma_effect p = Some s0"
  shows "modelsLoaded (lma_run evs s0) = length (filter is_model_completion evs) \<and>
         loading (lma_run evs s0) = (length (filter is_model_completion evs) < 5) \<and>
         modelsLoaded (lma_step e (lma_run evs s0)) =
           modelsLoaded (lma_run evs s0) + (if is_model_completion e then 1 else 0)"
proof -
  have run: "modelsLoaded (lma_run evs s0) = length (filter is_model_completion evs) \<and>
         loading (lma_run evs s0) = (length (filter is_model_completion evs) < 5)"
  proof (induction evs rule: rev_induct)
    case Nil
    from lma_effect_counter [OF assms] show ?case by (simp add: lma_run_def)
  next
    case (snoc e evs)
    then show ?case
      by (auto simp: lma_run_snoc lma_step_modelsLoaded lma_step_loading totalModels_def)
  qed
  with lma_step_modelsLoaded [of e "lma_run evs s0"] show ?thesis by simp
qed

lemma lma_effect_example:
  "\<exists>s0. lma_effect example_page = Some s0"
  by (simp add: lma_effect_def example_page_def Let_def)

text \<open>
  One interleaving on the example page: wheel 3 fails, the HDR loads, the body loads, a
  frame is rendered, wheels 1 and 4 load (counter 4, still loading), then wheel 2 fails
  (counter 5, loading false).
\<close>

theorem lma_completion_counter_witness:
  "lma_effect example_page \<noteq> None \<and>
   modelsLoaded (lma_run
     [Completion (WheelFailed 2 ''404''), Completion (HdrLoaded example_texture),
      Completion (BodyLoaded example_group), AnimationFrame,
      Completion (WheelLoaded 0 example_group), Completion (WheelLoaded 3 example_group)]
     (the (lma_effect example_page))) = 4 \<and>
   loading (lma_run
     [Completion (WheelFailed 2 ''404''), Completion (HdrLoaded example_texture),
      Completion (BodyLoaded example_group), AnimationFrame,
      Completion (WheelLoaded 0 example_group), Completion (WheelLoaded 3 example_group)]
     (the (lma_effect example_page))) \<and>
   modelsLoaded (lma_run
     [Completion (WheelFailed 2 ''404''), Completion (HdrLoaded example_texture),
      Completion (BodyLoaded example_group), AnimationFrame,
      Completion (WheelLoaded 0 example_group), Completion (WheelLoaded 3 example_group),
      Completion (WheelFailed 1 ''404'')]
     (the (lma_effect example_page))) = 5 \<and>
   \<not> loading (lma_run
     [Completion (WheelFailed 2 ''404''), Completion (HdrLoaded example_texture),
      Completion (BodyLoaded example_group), AnimationFrame,
      Completion (WheelLoaded 0 example_group), Completion (WheelLoaded 3 example_group),
      Completion (WheelFailed 1 ''404'')]
     (the (lma_effect example_page)))"
proof -
  obtain s0 where s0: "lma_effect example_page = Some s0"
    using lma_effect_example by blast
  have len: "length wheelPositions = 4" by (simp add: wheelPositions_def)
  show ?thesis
    using lma_completion_counter [OF s0,
        of "[Completion (WheelFailed 2 ''404''), Completion (HdrLoaded example_texture),
      Completion (BodyLoaded example_group), AnimationFrame,
      Completion (WheelLoaded 0 example_group), Completion (WheelLoaded 3 example_group)]"
           AnimationFrame]
      lma_completion_counter [OF s0,
        of "[Completion (WheelFailed 2 ''404''), Completion (HdrLoaded example_texture),
      Completion (BodyLoaded example_group), AnimationFrame,
      Completion (WheelLoaded 0 example_group), Completion (WheelLoaded 3 example_group),
      Completion (WheelFailed 1 ''404'')]" AnimationFrame]
    by (simp add: s0 len)
qed


lemma lma_step_not_model:
  "\<not> is_model_completion e \<Longrightarrow>
     modelsLoaded (lma_step e s) = modelsLoaded s \<and> loading (lma_step e s) = loading s"
  by (simp add: lma_step_modelsLoaded lma_step_loading)

lemma lma_step_counter_cong:
  "modelsLoaded s = modelsLoaded t \<Longrightarrow> loading s = loading t \<Longrightarrow>
     modelsLoaded (lma_step e s) = modelsLoaded (lma_step e t) \<and>
     loading (lma_step e s) = loading (lma_step e t)"
  by (simp add: lma_step_modelsLoaded lma_step_loading)

lemma hdr_not_model: "is_hdr_completion e \<Longrightarrow> \<not> is_model_completion e"
  by (cases e rule: is_hdr_completion.cases) simp_all

lemma lma_run_without_hdr:
  "modelsLoaded (lma_run evs s) =
     modelsLoaded (lma_run (filter (\<lambda>e. \<not> is_hdr_completion e) evs) s) \<and>
   loading (lma_run evs s) =
     loading (lma_run (filter (\<lambda>e. \<not> is_hdr_completion e) evs) s)"
proof (induction evs rule: rev_induct)
  case Nil
  show ?case by (simp add: lma_run_def)
next
  case (snoc e evs)
  show ?case
  proof (cases "is_hdr_completion e")
    case True
    with snoc lma_step_not_model [OF hdr_not_model [OF True]] show ?thesis
      by (simp add: lma_run_snoc)
  next
    case False
    from snoc have "modelsLoaded (lma_step e (lma_run evs s)) =
        modelsLoaded (lma_step e (lma_run (filter (\<lambda>e. \<not> is_hdr_completion e) evs) s)) \<and>
      loading (lma_step e (lma_run evs s)) =
        loading (lma_step e (lma_run (filter (\<lambda>e. \<not> is_hdr_completion e) evs) s))"
      by (intro lma_step_counter_cong) simp_all
    with False show ?thesis
      by (simp add: lma_run_snoc)
  qed
qed

text \<open>
  C9. A completion of the HDR load leaves \<open>modelsLoaded\<close> and \<open>loading\<close> as they were. On
  success the state changes in \<open>environment\<close> and \<open>background\<close> only (both become the
  loaded texture), on failure in \<open>error\<close> and \<open>background\<close> only (the fallback colour);
  each callback also writes its line to the console. So the counter and the loading flag
  after a run are those of the run with the HDR completions left out.
\<close>

theorem hdr_completion_frame:
  "hdr_onLoad tex s =
     s\<lparr>environment := environment (hdr_onLoad tex s),
       background := background (hdr_onLoad tex s),
       console := console (hdr_onLoad tex s)\<rparr> \<and>
   environment (hdr_onLoad tex s) =
     Some (tex\<lparr>mapping := EquirectangularReflectionMapping, blurriness := Some 1\<rparr>) \<and>
   background (hdr_onLoad tex s) =
     Some (BgTexture (tex\<lparr>mapping := EquirectangularReflectionMapping, blurriness := Some 1\<rparr>)) \<and>
   hdr_onError err s =
     s\<lparr>error := error (hdr_onError err s),
       background := background (hdr_onError err s),
       console := console (hdr_onError err s)\<rparr> \<and>
   error (hdr_onError err s) = Some ''Failed to load HDR environment. Using fallback.'' \<and>
   background (hdr_onError err s) = Some (BgColor 0x87ceeb) \<and>
   modelsLoaded (hdr_onLoad tex s) = modelsLoaded s \<and>
   loading (hdr_onLoad tex s) = loading s \<and>
   modelsLoaded (hdr_onError err s) = modelsLoaded s \<and>
   loading (hdr_onError err s) = loading s \<and>
   modelsLoaded (lma_run evs s) =
     modelsLoaded (lma_run (filter (\<lambda>e. \<not> is_hdr_completion e) evs) s) \<and>
   loading (lma_run evs s) =
     loading (lma_run (filter (\<lambda>e. \<not> is_hdr_completion e) evs) s)"
proof -
  have ok: "hdr_onLoad tex s =
     s\<lparr>environment := environment (hdr_onLoad tex s),
       background := background (hdr_onLoad tex s),
       console := console (hdr_onLoad tex s)\<rparr>"
    by (simp add: hdr_onLoad_def Let_def)
  have ok_vals: "environment (hdr_onLoad tex s) =
     Some (tex\<lparr>mapping := EquirectangularReflectionMapping, blurriness := Some 1\<rparr>)"
    "background (hdr_onLoad tex s) =
     Some (BgTexture (tex\<lparr>mapping := EquirectangularReflectionMapping, blurriness := Some 1\<rparr>))"
    by (simp_all add: hdr_onLoad_def Let_def)
  have err: "hdr_onError err s =
     s\<lparr>error := error (hdr_onError err s),
       background := background (hdr_onError err s),
       console := console (hdr_onError err s)\<rparr>"
    by (simp add: hdr_onError_def Let_def)
  have err_vals: "error (hdr_onError err s) = Some ''Failed to load HDR environment. Using fallback.''"
    "background (hdr_onError err s) = Some (BgColor 0x87ceeb)"
    by (simp_all add: hdr_onError_def Let_def)
  have counters: "modelsLoaded (hdr_onLoad tex s) = modelsLoaded s"
    "loading (hdr_onLoad tex s) = loading s"
    "modelsLoaded (hdr_onError err s) = modelsLoaded s"
    "loading (hdr_onError err s) = loading s"
    by (simp_all add: hdr_onLoad_def hdr_onError_def Let_def)
  note runs = lma_run_without_hdr [of evs s, THEN conjunct1]
    lma_run_without_hdr [of evs s, THEN conjunct2]
  show ?thesis
    by (intro conjI) (rule ok ok_vals err err_vals counters runs)+
qed

text \<open>
  C10. The wheel of index \<open>index\<close> (``Wheel \<open>index + 1\<close>'' in the log), once loaded, is
  added to the scene at the position of entry \<open>index\<close> of \<open>wheelPositions\<close>, and it is
  rotated by \<open>Math.PI\<close> about Y exactly when that entry's \<open>rotate\<close> flag is set, which is
  the case exactly for the two entries with \<open>x = 0.65\<close> (indices 1 and 3).
\<close>

theorem wheel_placement:
  assumes "index < 4"
  shows "scene (lma_step (Completion (WheelLoaded index gltf)) s) =
           scene s @ [Model (gltf\<lparr>position := (pos_x (wheelPositions ! index),
                                               pos_y (wheelPositions ! index),
                                               pos_z (wheelPositions ! index)),
                                  rotations := rotations gltf @
                                    (if pos_rotate (wheelPositions ! index) then [RotateY Math_PI] else [])\<rparr>)] \<and>
         pos_rotate (wheelPositions ! index) = (pos_x (wheelPositions ! index) = 0.65) \<and>
         pos_rotate (wheelPositions ! index) = (index = 1 \<or> index = 3) \<and>
         wheelPositions ! index \<in> set wheelPositions \<and> length wheelPositions = 4"
proof -
  from assms have "index = 0 \<or> index = 1 \<or> index = 2 \<or> index = 3" by arith
  then show ?thesis
    by (elim disjE) (simp_all add: wheel_onLoad_def model_done_def wheelPositions_def Let_def)
qed

text \<open>
  The second wheel on the example page: placed at \<open>(0.65, 0.2, -0.77)\<close> and rotated.
\<close>

theorem wheel_placement_witness:
  "(1::nat) < 4 \<and>
   scene (lma_step (Completion (WheelLoaded 1 example_group)) (the (lma_effect example_page))) =
     scene (the (lma_effect example_page)) @
       [Model (example_group\<lparr>position := (0.65, 0.2, - 0.77), rotations := [RotateY Math_PI]\<rparr>)]"
proof -
  have "(1::nat) < 4" by simp
  from wheel_placement [OF this, of example_group "the (lma_effect example_page)"]
  show ?thesis by (simp add: wheelPositions_def example_group_def)
qed


section \<open>The mounted state\<close>

lemma lma_effect_eq:
  "lma_effect p =
     (if \<not> p_mountRef p \<or> \<not> p_statsRef p then None
      else Some
        \<lparr>mountRef = True, statsRef = True,
         mountDiv = [RendererDomElement], statsDiv = [StatsDom],
         resizeListener = True,
         frameCounter = p_frameCounter p + 1, frameCallbacks = [p_frameCounter p + 1],
         console = p_console p,
         scene = [AmbientLight 0xffffff 0.5, DirectionalLight 0xffffff 0.8 (5, 10, 7),
                  GridHelper 10 10 (0, - 0.5, 0)],
         environment = None, background = None,
         cameraAspect = (innerWidth p, innerHeight p),
         rendererSize = (innerWidth p, innerHeight p),
         requests =
           [\<lparr>loader = HDRLoader, url = ''/img/venice_sunset_1k.hdr'',
             onLoad = True, onProgress = False, onError = True\<rparr>,
            \<lparr>loader = GLTFLoader, url = ''/models/suv_body.glb'',
             onLoad = True, onProgress = False, onError = True\<rparr>,
            \<lparr>loader = GLTFLoader, url = ''/models/suv_wheel.glb'',
             onLoad = True, onProgress = False, onError = True\<rparr>,
            \<lparr>loader = GLTFLoader, url = ''/models/suv_wheel.glb'',
             onLoad = True, onProgress = False, onError = True\<rparr>,
            \<lparr>loader = GLTFLoader, url = ''/models/suv_wheel.glb'',
             onLoad = True, onProgress = False, onError = True\<rparr>,
            \<lparr>loader = GLTFLoader, url = ''/models/suv_wheel.glb'',
             onLoad = True, onProgress = False, onError = True\<rparr>],
         animationFrameId = Some (p_frameCounter p + 1), rendered = 1,
         rendererDisposed = False, controlsDisposed = False,
         modelsLoaded = 0, loading = True, error = None\<rparr>)"
  by (simp add: lma_effect_def Let_def wheelPositions_def animate_def requestAnimationFrame_def)

lemma la_effect_eq:
  "la_effect p =
     (if \<not> p_mountRef p \<or> \<not> p_statsRef p then None
      else Some
        \<lparr>mountRef = True, statsRef = True,
         mountDiv = [RendererDomElement], statsDiv = [StatsDom],
         resizeListener = True,
         frameCounter = p_frameCounter p + 1, frameCallbacks = [p_frameCounter p + 1],
         console = p_console p,
         scene = [PlaneMesh (PlaneGeometry 10 10), AmbientLight 0xffffff 0.5,
                  DirectionalLight 0xffffff 0.8 (5, 10, 7)],
         environment = None, background = None,
         cameraAspect = (innerWidth p, innerHeight p),
         rendererSize = (clientWidth p, clientHeight p),
         requests =
           [\<lparr>loader = HDRLoader, url = hdr,
             onLoad = True, onProgress = False, onError = True\<rparr>,
            \<lparr>loader = TextureLoader, url = image_url,
             onLoad = True, onProgress = False, onError = True\<rparr>,
            \<lparr>loader = GLTFLoader, url = model,
             onLoad = True, onProgress = False, onError = True\<rparr>],
         animationFrameId = Some (p_frameCounter p + 1), rendered = 1,
         rendererDisposed = False, controlsDisposed = False,
         materialMap = None, materialNeedsUpdate = False,
         mapDisposed = False, materialDisposed = False,
         planeGeometryDisposed = False\<rparr>)"
  by (simp add: la_effect_def Let_def animate_def requestAnimationFrame_def)

section \<open>Failure of a model load\<close>

lemma lma_effect_fresh:
  "lma_effect p = Some s0 \<Longrightarrow> error s0 = None \<and> modelsLoaded s0 = 0 \<and> loading s0"
  by (auto simp: lma_effect_eq split: if_splits)

text \<open>
  C2, as stated, fails: the reaction to a failed load of the SUV body is not limited to
  the console and the scene. On the example page the callback also sets the error message
  that the component shows and counts the load as completed.
\<close>

theorem model_failure_reaction_counterexample:
  "error (the (lma_effect example_page)) = None \<and>
   error (lma_step (Completion (BodyFailed ''404'')) (the (lma_effect example_page))) =
     Some ''Failed to load SUV model. Using fallback.'' \<and>
   modelsLoaded (the (lma_effect example_page)) = 0 \<and>
   modelsLoaded (lma_step (Completion (BodyFailed ''404'')) (the (lma_effect example_page))) = 1 \<and>
   lma_step (Completion (BodyFailed ''404'')) (the (lma_effect example_page)) \<noteq>
     (the (lma_effect example_page))
       \<lparr>console := console (lma_step (Completion (BodyFailed ''404'')) (the (lma_effect example_page))),
        scene := scene (lma_step (Completion (BodyFailed ''404'')) (the (lma_effect example_page)))\<rparr>"
proof -
  obtain s0 where s0: "lma_effect example_page = Some s0"
    using lma_effect_example by blast
  note fresh = lma_effect_fresh [OF s0]
  have e: "error (lma_step (Completion (BodyFailed ''404'')) s0) =
     Some ''Failed to load SUV model. Using fallback.''"
    by (simp add: body_onError_def createFallbackModel_def model_done_def Let_def)
  have m: "modelsLoaded (lma_step (Completion (BodyFailed ''404'')) s0) = 1"
    using fresh by (simp add: body_onError_def createFallbackModel_def model_done_def Let_def)
  have "error (s0\<lparr>console := c, scene := sc\<rparr>) = None" for c sc
    using fresh by simp
  with e have ne: "lma_step (Completion (BodyFailed ''404'')) s0 \<noteq>
     s0\<lparr>console := console (lma_step (Completion (BodyFailed ''404'')) s0),
        scene := scene (lma_step (Completion (BodyFailed ''404'')) s0)\<rparr>"
    by (metis option.distinct(1))
  from fresh e m ne show ?thesis by (simp only: s0 option.sel) simp
qed

text \<open>
  C2, amended. A failed model load changes the state as follows and in nothing else. SUV
  body: two console lines, the error message, the fallback cube appended to the scene,
  the counter incremented and \<open>loading\<close> cleared when the counter reaches
  \<open>totalModels\<close>. A wheel: one console line, the counter and \<open>loading\<close> likewise, no
  fallback object. The model of \<open>LoadingAssets\<close>: one console line. In particular no
  load is issued again: \<open>requests\<close> is unchanged.
\<close>

theorem model_failure_reaction:
  "body_onError err s =
     s\<lparr>console := console s @ [ConsoleError ''Error loading SUV body:'' err,
                                 ConsoleLog ''Created fallback cube''],
       error := Some ''Failed to load SUV model. Using fallback.'',
       scene := scene s @ [fallback_cube],
       modelsLoaded := modelsLoaded s + 1,
       loading := (loading s \<and> modelsLoaded s + 1 \<noteq> totalModels)\<rparr> \<and>
   wheel_onError index err s =
     s\<lparr>console := console s @
          [ConsoleError (''Error loading wheel '' @ show_nat (index + 1) @ '':'') err],
       modelsLoaded := modelsLoaded s + 1,
       loading := (loading s \<and> modelsLoaded s + 1 \<noteq> totalModels)\<rparr> \<and>
   la_model_onError err t =
     t\<lparr>console := console t @ [ConsoleError ''Error loading model:'' err]\<rparr> \<and>
   requests (body_onError err s) = requests s \<and>
   requests (wheel_onError index err s) = requests s \<and>
   requests (la_model_onError err t) = requests t \<and>
   scene (wheel_onError index err s) = scene s \<and>
   scene (la_model_onError err t) = scene t"
proof -
  have b: "body_onError err s =
     s\<lparr>console := console s @ [ConsoleError ''Error loading SUV body:'' err,
                                 ConsoleLog ''Created fallback cube''],
       error := Some ''Failed to load SUV model. Using fallback.'',
       scene := scene s @ [fallback_cube],
       modelsLoaded := modelsLoaded s + 1,
       loading := (loading s \<and> modelsLoaded s + 1 \<noteq> totalModels)\<rparr>"
    by (cases "loading s") (simp_all add: body_onError_def createFallbackModel_def model_done_def Let_def)
  have w: "wheel_onError index err s =
     s\<lparr>console := console s @
          [ConsoleError (''Error loading wheel '' @ show_nat (index + 1) @ '':'') err],
       modelsLoaded := modelsLoaded s + 1,
       loading := (loading s \<and> modelsLoaded s + 1 \<noteq> totalModels)\<rparr>"
    by (cases "loading s") (simp_all add: wheel_onError_def model_done_def Let_def)
  have l: "la_model_onError err t =
     t\<lparr>console := console t @ [ConsoleError ''Error loading model:'' err]\<rparr>"
    by (simp add: la_model_onError_def)
  have r: "requests (body_onError err s) = requests s"
    "requests (wheel_onError index err s) = requests s"
    "requests (la_model_onError err t) = requests t"
    "scene (wheel_onError index err s) = scene s"
    "scene (la_model_onError err t) = scene t"
    by (simp_all add: body_onError_def createFallbackModel_def wheel_onError_def model_done_def
          la_model_onError_def Let_def)
  show ?thesis
    by (intro conjI) (rule b w l r)+
qed


section \<open>The render loop\<close>

lemma animate_stopped:
  "loop_stopped s \<Longrightarrow> loop_pending (animate s) \<and> rendered (animate s) = rendered s + 1"
  by (simp add: loop_stopped_def loop_pending_def animate_def requestAnimationFrame_def Let_def)

lemma run_frame_pending:
  assumes "loop_pending s"
  shows "loop_pending (run_frame s) \<and> rendered (run_frame s) = rendered s + 1"
proof -
  from assms obtain handle where h: "frameCallbacks s = [handle]"
    by (auto simp: loop_pending_def split: option.splits)
  have "loop_stopped (s\<lparr>frameCallbacks := []\<rparr>)" by (simp add: loop_stopped_def)
  from animate_stopped [OF this] h show ?thesis by (simp add: run_frame_def)
qed

lemma run_frame_stopped:
  "loop_stopped s \<Longrightarrow> loop_stopped (run_frame s) \<and> rendered (run_frame s) = rendered s"
  by (simp add: loop_stopped_def run_frame_def)

lemma cleanup_common_stops:
  "loop_pending s \<or> loop_stopped s \<Longrightarrow> loop_stopped (cleanup_common s)"
  by (auto simp: loop_pending_def loop_stopped_def cleanup_common_def cancelAnimationFrame_def
      Let_def split: option.splits)

lemma cleanup_common_rendered: "rendered (cleanup_common s) = rendered s"
  by (simp add: cleanup_common_def cancelAnimationFrame_def Let_def split: option.splits)

lemma lma_complete_loop:
  "frameCallbacks (lma_complete l s) = frameCallbacks s \<and>
   animationFrameId (lma_complete l s) = animationFrameId s \<and>
   rendered (lma_complete l s) = rendered s"
  by (cases l) (simp_all add: lma_callback_defs Let_def)

lemmas la_callback_defs =
  la_hdr_onLoad_def la_hdr_onError_def la_texture_onLoad_def la_texture_onError_def
  la_model_onLoad_def la_model_onError_def

lemma la_complete_loop:
  "frameCallbacks (la_complete l s) = frameCallbacks s \<and>
   animationFrameId (la_complete l s) = animationFrameId s \<and>
   rendered (la_complete l s) = rendered s"
  by (cases l) (simp_all add: la_callback_defs Let_def)

lemma lma_step_pending:
  assumes "loop_pending s" "e \<noteq> Unmount"
  shows "loop_pending (lma_step e s)"
proof (cases e)
  case (Completion l)
  with assms lma_complete_loop [of l s] show ?thesis
    by (simp add: loop_pending_def split: option.splits)
next
  case AnimationFrame
  with run_frame_pending [OF assms(1)] show ?thesis by simp
qed (use assms in \<open>auto simp: loop_pending_def lma_handleResize_def foreign_request_def
      detach_refs_def split: option.splits\<close>)

lemma la_step_pending:
  assumes "loop_pending s" "e \<noteq> Unmount"
  shows "loop_pending (la_step e s)"
proof (cases e)
  case (Completion l)
  with assms la_complete_loop [of l s] show ?thesis
    by (simp add: loop_pending_def split: option.splits)
next
  case AnimationFrame
  with run_frame_pending [OF assms(1)] show ?thesis by simp
qed (use assms in \<open>auto simp: loop_pending_def la_handleResize_def foreign_request_def
      detach_refs_def split: option.splits\<close>)

lemma lma_step_stopped:
  assumes "loop_stopped s"
  shows "loop_stopped (lma_step e s) \<and> rendered (lma_step e s) = rendered s"
proof (cases e)
  case (Completion l)
  with assms lma_complete_loop [of l s] show ?thesis by (simp add: loop_stopped_def)
next
  case AnimationFrame
  with run_frame_stopped [OF assms] show ?thesis by simp
next
  case Unmount
  with assms cleanup_common_stops [of s] cleanup_common_rendered [of s] show ?thesis
    by (simp add: lma_cleanup_def loop_stopped_def Let_def)
qed (use assms in \<open>simp_all add: loop_stopped_def lma_handleResize_def foreign_request_def detach_refs_def\<close>)

lemma la_step_stopped:
  assumes "loop_stopped s"
  shows "loop_stopped (la_step e s) \<and> rendered (la_step e s) = rendered s"
proof (cases e)
  case (Completion l)
  with assms la_complete_loop [of l s] show ?thesis by (simp add: loop_stopped_def)
next
  case AnimationFrame
  with run_frame_stopped [OF assms] show ?thesis by simp
next
  case Unmount
  with assms cleanup_common_stops [of s] cleanup_common_rendered [of s] show ?thesis
    by (simp add: la_cleanup_def loop_stopped_def Let_def)
qed (use assms in \<open>simp_all add: loop_stopped_def la_handleResize_def foreign_request_def detach_refs_def\<close>)

lemma lma_unmount_stops:
  "loop_pending s \<or> loop_stopped s \<Longrightarrow>
     loop_stopped (lma_step Unmount s) \<and> rendered (lma_step Unmount s) = rendered s"
  using cleanup_common_stops [of s] cleanup_common_rendered [of s]
  by (simp add: lma_cleanup_def loop_stopped_def Let_def)

lemma la_unmount_stops:
  "loop_pending s \<or> loop_stopped s \<Longrightarrow>
     loop_stopped (la_step Unmount s) \<and> rendered (la_step Unmount s) = rendered s"
  using cleanup_common_stops [of s] cleanup_common_rendered [of s]
  by (simp add: la_cleanup_def loop_stopped_def Let_def)

lemma lma_step_loop:
  assumes "loop_pending s \<or> loop_stopped s"
  shows "loop_pending (lma_step e s) \<or> loop_stopped (lma_step e s)"
proof (cases "e = Unmount")
  case True
  with lma_unmount_stops [OF assms] show ?thesis by simp
next
  case False
  with assms lma_step_pending [of s e] lma_step_stopped [of s e] show ?thesis by blast
qed

lemma la_step_loop:
  assumes "loop_pending s \<or> loop_stopped s"
  shows "loop_pending (la_step e s) \<or> loop_stopped (la_step e s)"
proof (cases "e = Unmount")
  case True
  with la_unmount_stops [OF assms] show ?thesis by simp
next
  case False
  with assms la_step_pending [of s e] la_step_stopped [of s e] show ?thesis by blast
qed

lemma la_run_snoc: "la_run (evs @ [e]) s = la_step e (la_run evs s)"
  by (simp add: la_run_def)

lemma lma_run_loop:
  "loop_pending s \<or> loop_stopped s \<Longrightarrow> loop_pending (lma_run evs s) \<or> loop_stopped (lma_run evs s)"
  by (induction evs rule: rev_induct) (simp_all add: lma_run_def lma_step_loop)

lemma la_run_loop:
  "loop_pending s \<or> loop_stopped s \<Longrightarrow> loop_pending (la_run evs s) \<or> loop_stopped (la_run evs s)"
  by (induction evs rule: rev_induct) (simp_all add: la_run_def la_step_loop)

lemma lma_run_pending:
  "loop_pending s \<Longrightarrow> Unmount \<notin> set evs \<Longrightarrow> loop_pending (lma_run evs s)"
  by (induction evs rule: rev_induct) (auto simp: lma_run_def intro: lma_step_pending)

lemma la_run_pending:
  "loop_pending s \<Longrightarrow> Unmount \<notin> set evs \<Longrightarrow> loop_pending (la_run evs s)"
  by (induction evs rule: rev_induct) (auto simp: la_run_def intro: la_step_pending)

lemma lma_run_stopped:
  "loop_stopped s \<Longrightarrow> loop_stopped (lma_run evs s) \<and> rendered (lma_run evs s) = rendered s"
  by (induction evs rule: rev_induct) (simp_all add: lma_run_def lma_step_stopped)

lemma la_run_stopped:
  "loop_stopped s \<Longrightarrow> loop_stopped (la_run evs s) \<and> rendered (la_run evs s) = rendered s"
  by (induction evs rule: rev_induct) (simp_all add: la_run_def la_step_stopped)

lemma lma_effect_pending: "lma_effect p = Some s \<Longrightarrow> loop_pending s"
  by (auto simp: lma_effect_eq loop_pending_def split: if_splits)

lemma la_effect_pending: "la_effect p = Some s \<Longrightarrow> loop_pending s"
  by (auto simp: la_effect_eq loop_pending_def split: if_splits)

lemma loop_pending_length: "loop_pending s \<Longrightarrow> length (frameCallbacks s) = 1"
  by (auto simp: loop_pending_def split: option.splits)

lemma lma_loop_after_unmount:
  assumes "loop_pending s"
  shows "frameCallbacks (lma_run (evs @ Unmount # evs') s) = [] \<and>
         rendered (lma_run (evs @ Unmount # evs') s) = rendered (lma_run evs s)"
proof -
  from assms have "loop_pending (lma_run evs s) \<or> loop_stopped (lma_run evs s)"
    by (intro lma_run_loop) simp
  from lma_unmount_stops [OF this]
  have u: "loop_stopped (lma_step Unmount (lma_run evs s))"
    "rendered (lma_step Unmount (lma_run evs s)) = rendered (lma_run evs s)"
    by simp_all
  have split: "lma_run (evs @ Unmount # evs') s = lma_run evs' (lma_step Unmount (lma_run evs s))"
    by (simp add: lma_run_def)
  from lma_run_stopped [OF u(1), of evs'] u(2) show ?thesis
    by (simp add: split loop_stopped_def)
qed

lemma la_loop_after_unmount:
  assumes "loop_pending s"
  shows "frameCallbacks (la_run (evs @ Unmount # evs') s) = [] \<and>
         rendered (la_run (evs @ Unmount # evs') s) = rendered (la_run evs s)"
proof -
  from assms have "loop_pending (la_run evs s) \<or> loop_stopped (la_run evs s)"
    by (intro la_run_loop) simp
  from la_unmount_stops [OF this]
  have u: "loop_stopped (la_step Unmount (la_run evs s))"
    "rendered (la_step Unmount (la_run evs s)) = rendered (la_run evs s)"
    by simp_all
  have split: "la_run (evs @ Unmount # evs') s = la_run evs' (la_step Unmount (la_run evs s))"
    by (simp add: la_run_def)
  from la_run_stopped [OF u(1), of evs'] u(2) show ?thesis
    by (simp add: split loop_stopped_def)
qed

lemma lma_loop_before_unmount:
  assumes "loop_pending s" "Unmount \<notin> set evs"
  shows "length (frameCallbacks (lma_run evs s)) = 1 \<and>
         rendered (lma_run (evs @ [AnimationFrame]) s) = rendered (lma_run evs s) + 1"
  using lma_run_pending [OF assms] run_frame_pending [of "lma_run evs s"]
  by (simp add: lma_run_snoc loop_pending_length)

lemma la_loop_before_unmount:
  assumes "loop_pending s" "Unmount \<notin> set evs"
  shows "length (frameCallbacks (la_run evs s)) = 1 \<and>
         rendered (la_run (evs @ [AnimationFrame]) s) = rendered (la_run evs s) + 1"
  using la_run_pending [OF assms] run_frame_pending [of "la_run evs s"]
  by (simp add: la_run_snoc loop_pending_length)

text \<open>
  C4. In both components the render loop is one callback per frame: as long as the
  cleanup has not run, exactly one frame request of the component is queued, and a frame
  runs \<open>animate\<close>, and so \<open>renderer.render\<close>, exactly once. The cleanup cancels the queued
  request: after it no request of the component is queued and, whatever happens later
  (frames, load completions, resizes), the component renders no more.
\<close>

theorem render_loop_cancelled:
  assumes "lma_effect p = Some s" and "la_effect q = Some t"
  shows "(Unmount \<notin> set evs \<longrightarrow>
            length (frameCallbacks (lma_run evs s)) = 1 \<and>
            rendered (lma_run (evs @ [AnimationFrame]) s) = rendered (lma_run evs s) + 1) \<and>
         frameCallbacks (lma_run (evs @ Unmount # evs') s) = [] \<and>
         rendered (lma_run (evs @ Unmount # evs') s) = rendered (lma_run evs s) \<and>
         (Unmount \<notin> set tevs \<longrightarrow>
            length (frameCallbacks (la_run tevs t)) = 1 \<and>
            rendered (la_run (tevs @ [AnimationFrame]) t) = rendered (la_run tevs t) + 1) \<and>
         frameCallbacks (la_run (tevs @ Unmount # tevs') t) = [] \<and>
         rendered (la_run (tevs @ Unmount # tevs') t) = rendered (la_run tevs t)"
proof -
  note ps = lma_effect_pending [OF assms(1)] and pt = la_effect_pending [OF assms(2)]
  from lma_loop_before_unmount [OF ps] lma_loop_after_unmount [OF ps]
       la_loop_before_unmount [OF pt] la_loop_after_unmount [OF pt]
  show ?thesis by blast
qed

lemma la_effect_example:
  "\<exists>t0. la_effect example_page = Some t0"
  by (simp add: la_effect_eq example_page_def)

lemmas loop_defs = run_frame_def animate_def requestAnimationFrame_def cleanup_common_def
  cancelAnimationFrame_def foreign_request_def detach_refs_def

text \<open>
  Both components on the example page: the mount renders once, two frames render twice
  more; after the cleanup two further frames leave the count at 3 and the queue empty.
\<close>

theorem render_loop_cancelled_witness:
  "lma_effect example_page \<noteq> None \<and> la_effect example_page \<noteq> None \<and>
   Unmount \<notin> set [AnimationFrame, Completion (BodyLoaded example_group), AnimationFrame] \<and>
   rendered (lma_run [AnimationFrame, Completion (BodyLoaded example_group), AnimationFrame]
     (the (lma_effect example_page))) = 3 \<and>
   rendered (lma_run ([AnimationFrame, Completion (BodyLoaded example_group), AnimationFrame] @
       Unmount # [AnimationFrame, Completion (HdrLoaded example_texture), AnimationFrame])
     (the (lma_effect example_page))) = 3 \<and>
   frameCallbacks (lma_run ([AnimationFrame, Completion (BodyLoaded example_group), AnimationFrame] @
       Unmount # [AnimationFrame, Completion (HdrLoaded example_texture), AnimationFrame])
     (the (lma_effect example_page))) = [] \<and>
   Unmount \<notin> set [AnimationFrame, Completion (LaModelFailed ''404''), AnimationFrame] \<and>
   rendered (la_run [AnimationFrame, Completion (LaModelFailed ''404''), AnimationFrame]
     (the (la_effect example_page))) = 3 \<and>
   rendered (la_run ([AnimationFrame, Completion (LaModelFailed ''404''), AnimationFrame] @
       Unmount # [AnimationFrame, AnimationFrame])
     (the (la_effect example_page))) = 3 \<and>
   frameCallbacks (la_run ([AnimationFrame, Completion (LaModelFailed ''404''), AnimationFrame] @
       Unmount # [AnimationFrame, AnimationFrame])
     (the (la_effect example_page))) = []"
proof -
  obtain s0 where s0: "lma_effect example_page = Some s0"
    using lma_effect_example by blast
  obtain t0 where t0: "la_effect example_page = Some t0"
    using la_effect_example by blast
  have rs: "rendered (lma_run [AnimationFrame, Completion (BodyLoaded example_group), AnimationFrame]
     (the (lma_effect example_page))) = 3"
    by (simp add: lma_effect_eq example_page_def lma_run_def loop_defs body_onLoad_def
        model_done_def Let_def)
  have rt: "rendered (la_run [AnimationFrame, Completion (LaModelFailed ''404''), AnimationFrame]
     (the (la_effect example_page))) = 3"
    by (simp add: la_effect_eq example_page_def la_run_def loop_defs la_model_onError_def Let_def)
  have u1: "Unmount \<notin> set [AnimationFrame, Completion (BodyLoaded example_group), AnimationFrame]"
    by simp
  have u2: "Unmount \<notin> set [AnimationFrame, Completion (LaModelFailed ''404''), AnimationFrame]"
    by simp
  from render_loop_cancelled [OF s0 t0,
      of "[AnimationFrame, Completion (BodyLoaded example_group), AnimationFrame]"
         "[AnimationFrame, Completion (HdrLoaded example_texture), AnimationFrame]"
         "[AnimationFrame, Completion (LaModelFailed ''404''), AnimationFrame]"
         "[AnimationFrame, AnimationFrame]"]
  show ?thesis
    using rs rt u1 u2 by (simp only: s0 t0 option.sel) simp
qed

subsection \<open>What the cleanup does\<close>

lemma cleanup_common_effects:
  "\<not> resizeListener (cleanup_common s) \<and> rendererDisposed (cleanup_common s) \<and>
   mountRef (cleanup_common s) = mountRef s \<and> statsRef (cleanup_common s) = statsRef s \<and>
   controlsDisposed (cleanup_common s) = controlsDisposed s"
  by (simp add: cleanup_common_def cancelAnimationFrame_def Let_def split: option.splits)

lemma cleanup_common_dom:
  assumes "dom_inv s"
  shows "dom_inv (cleanup_common s) \<and>
         (mountRef s \<longrightarrow> mountDiv (cleanup_common s) = []) \<and>
         (statsRef s \<longrightarrow> statsDiv (cleanup_common s) = []) \<and>
         RendererDomElement \<notin> set (mountDiv (cleanup_common s)) = (mountRef s \<or> mountDiv s = [])"
  using assms
  by (auto simp: dom_inv_def cleanup_common_def cancelAnimationFrame_def Let_def
      split: option.splits)


section \<open>Mount and unmount\<close>

lemma lma_complete_dom:
  "mountDiv (lma_complete l s) = mountDiv s \<and> statsDiv (lma_complete l s) = statsDiv s \<and>
   mountRef (lma_complete l s) = mountRef s \<and> statsRef (lma_complete l s) = statsRef s"
  by (cases l) (simp_all add: lma_callback_defs Let_def)

lemma la_complete_dom:
  "mountDiv (la_complete l s) = mountDiv s \<and> statsDiv (la_complete l s) = statsDiv s \<and>
   mountRef (la_complete l s) = mountRef s \<and> statsRef (la_complete l s) = statsRef s"
  by (cases l) (simp_all add: la_callback_defs Let_def)

lemma fold_animate_dom:
  "mountDiv (fold (\<lambda>handle. animate) hs s) = mountDiv s \<and>
   statsDiv (fold (\<lambda>handle. animate) hs s) = statsDiv s \<and>
   mountRef (fold (\<lambda>handle. animate) hs s) = mountRef s \<and>
   statsRef (fold (\<lambda>handle. animate) hs s) = statsRef s"
  by (induction hs arbitrary: s) (simp_all add: animate_def requestAnimationFrame_def Let_def)

lemma run_frame_dom:
  "mountDiv (run_frame s) = mountDiv s \<and> statsDiv (run_frame s) = statsDiv s \<and>
   mountRef (run_frame s) = mountRef s \<and> statsRef (run_frame s) = statsRef s"
  by (simp add: run_frame_def fold_animate_dom)

lemma lma_step_dom: "dom_inv s \<Longrightarrow> dom_inv (lma_step e s)"
proof (cases e)
  case (Completion l)
  assume "dom_inv s"
  with Completion lma_complete_dom [of l s] show ?thesis by (simp add: dom_inv_def)
next
  case AnimationFrame
  assume "dom_inv s"
  with AnimationFrame run_frame_dom [of s] show ?thesis by (simp add: dom_inv_def)
next
  case Unmount
  assume "dom_inv s"
  with Unmount cleanup_common_dom [of s] show ?thesis
    by (simp add: lma_cleanup_def dom_inv_def Let_def)
qed (simp_all add: dom_inv_def lma_handleResize_def foreign_request_def detach_refs_def)

lemma la_step_dom: "dom_inv s \<Longrightarrow> dom_inv (la_step e s)"
proof (cases e)
  case (Completion l)
  assume "dom_inv s"
  with Completion la_complete_dom [of l s] show ?thesis by (simp add: dom_inv_def)
next
  case AnimationFrame
  assume "dom_inv s"
  with AnimationFrame run_frame_dom [of s] show ?thesis by (simp add: dom_inv_def)
next
  case Unmount
  assume "dom_inv s"
  with Unmount cleanup_common_dom [of s] show ?thesis
    by (simp add: la_cleanup_def dom_inv_def Let_def)
qed (simp_all add: dom_inv_def la_handleResize_def foreign_request_def detach_refs_def)

lemma lma_step_refs:
  "e \<noteq> RefsDetached \<Longrightarrow>
     mountRef (lma_step e s) = mountRef s \<and> statsRef (lma_step e s) = statsRef s"
proof (cases e)
  case (Completion l)
  with lma_complete_dom [of l s] show ?thesis by simp
next
  case AnimationFrame
  with run_frame_dom [of s] show ?thesis by simp
next
  case Unmount
  with cleanup_common_effects [of s] show ?thesis by (simp add: lma_cleanup_def Let_def)
qed (simp_all add: lma_handleResize_def foreign_request_def)

lemma la_step_refs:
  "e \<noteq> RefsDetached \<Longrightarrow>
     mountRef (la_step e s) = mountRef s \<and> statsRef (la_step e s) = statsRef s"
proof (cases e)
  case (Completion l)
  with la_complete_dom [of l s] show ?thesis by simp
next
  case AnimationFrame
  with run_frame_dom [of s] show ?thesis by simp
next
  case Unmount
  with cleanup_common_effects [of s] show ?thesis by (simp add: la_cleanup_def Let_def)
qed (simp_all add: la_handleResize_def foreign_request_def)

lemma lma_run_dom: "dom_inv s \<Longrightarrow> dom_inv (lma_run evs s)"
  by (induction evs rule: rev_induct) (simp_all add: lma_run_def lma_step_dom)

lemma la_run_dom: "dom_inv s \<Longrightarrow> dom_inv (la_run evs s)"
  by (induction evs rule: rev_induct) (simp_all add: la_run_def la_step_dom)

lemma lma_run_refs:
  "RefsDetached \<notin> set evs \<Longrightarrow>
     mountRef (lma_run evs s) = mountRef s \<and> statsRef (lma_run evs s) = statsRef s"
proof (induction evs rule: rev_induct)
  case Nil
  show ?case by (simp add: lma_run_def)
next
  case (snoc e evs)
  then have "e \<noteq> RefsDetached" by auto
  from lma_step_refs [OF this, of "lma_run evs s"] snoc show ?case
    by (simp add: lma_run_snoc)
qed

lemma la_run_refs:
  "RefsDetached \<notin> set evs \<Longrightarrow>
     mountRef (la_run evs s) = mountRef s \<and> statsRef (la_run evs s) = statsRef s"
proof (induction evs rule: rev_induct)
  case Nil
  show ?case by (simp add: la_run_def)
next
  case (snoc e evs)
  then have "e \<noteq> RefsDetached" by auto
  from la_step_refs [OF this, of "la_run evs s"] snoc show ?case
    by (simp add: la_run_snoc)
qed

lemma lma_unmount_effects:
  assumes "dom_inv s" "loop_pending s \<or> loop_stopped s"
  shows "\<not> resizeListener (lma_step Unmount s) \<and>
         frameCallbacks (lma_step Unmount s) = [] \<and>
         rendererDisposed (lma_step Unmount s) \<and>
         controlsDisposed (lma_step Unmount s) \<and>
         (RendererDomElement \<notin> set (mountDiv (lma_step Unmount s))) = (mountRef s \<or> mountDiv s = []) \<and>
         (mountRef s \<longrightarrow> mountDiv (lma_step Unmount s) = []) \<and>
         (statsRef s \<longrightarrow> statsDiv (lma_step Unmount s) = [])"
  using cleanup_common_dom [OF assms(1)] cleanup_common_effects [of s]
    cleanup_common_stops [OF assms(2)]
  by (simp add: lma_cleanup_def Let_def loop_stopped_def)

lemma la_unmount_effects:
  assumes "dom_inv s" "loop_pending s \<or> loop_stopped s"
  shows "\<not> resizeListener (la_step Unmount s) \<and>
         frameCallbacks (la_step Unmount s) = [] \<and>
         rendererDisposed (la_step Unmount s) \<and>
         controlsDisposed (la_step Unmount s) \<and>
         materialDisposed (la_step Unmount s) \<and>
         planeGeometryDisposed (la_step Unmount s) \<and>
         (RendererDomElement \<notin> set (mountDiv (la_step Unmount s))) = (mountRef s \<or> mountDiv s = []) \<and>
         (mountRef s \<longrightarrow> mountDiv (la_step Unmount s) = []) \<and>
         (statsRef s \<longrightarrow> statsDiv (la_step Unmount s) = [])"
  using cleanup_common_dom [OF assms(1)] cleanup_common_effects [of s]
    cleanup_common_stops [OF assms(2)]
  by (simp add: la_cleanup_def Let_def loop_stopped_def)

lemma lma_effect_mounted:
  assumes "lma_effect p = Some s"
  shows "p_mountRef p \<and> p_statsRef p \<and> mountRef s \<and> statsRef s \<and>
         \<not> rendererDisposed s \<and> \<not> controlsDisposed s \<and>
         mountDiv s = [RendererDomElement] \<and> statsDiv s = [StatsDom] \<and>
         resizeListener s \<and>
         map (\<lambda>r. (loader r, url r)) (requests s) =
           [(HDRLoader, ''/img/venice_sunset_1k.hdr''), (GLTFLoader, ''/models/suv_body.glb''),
            (GLTFLoader, ''/models/suv_wheel.glb''), (GLTFLoader, ''/models/suv_wheel.glb''),
            (GLTFLoader, ''/models/suv_wheel.glb''), (GLTFLoader, ''/models/suv_wheel.glb'')] \<and>
         list_all (\<lambda>r. onLoad r \<and> onError r) (requests s) \<and>
         frameCallbacks s = [p_frameCounter p + 1] \<and> rendered s = 1"
  using assms by (auto simp: lma_effect_eq split: if_splits)

lemma la_effect_mounted:
  assumes "la_effect q = Some t"
  shows "p_mountRef q \<and> p_statsRef q \<and> mountRef t \<and> statsRef t \<and>
         \<not> rendererDisposed t \<and> \<not> controlsDisposed t \<and>
         mountDiv t = [RendererDomElement] \<and> statsDiv t = [StatsDom] \<and>
         resizeListener t \<and>
         map (\<lambda>r. (loader r, url r)) (requests t) =
           [(HDRLoader, hdr), (TextureLoader, image_url), (GLTFLoader, model)] \<and>
         list_all (\<lambda>r. onLoad r \<and> onError r) (requests t) \<and>
         frameCallbacks t = [p_frameCounter q + 1] \<and> rendered t = 1"
  using assms by (auto simp: la_effect_eq split: if_splits)

lemma lma_unmount_after_run:
  assumes "lma_effect p = Some s"
  shows "\<not> resizeListener (lma_run (evs @ [Unmount]) s) \<and>
         frameCallbacks (lma_run (evs @ [Unmount]) s) = [] \<and>
         rendererDisposed (lma_run (evs @ [Unmount]) s) \<and>
         controlsDisposed (lma_run (evs @ [Unmount]) s) \<and>
         (RefsDetached \<notin> set evs \<longrightarrow>
            mountDiv (lma_run (evs @ [Unmount]) s) = [] \<and>
            statsDiv (lma_run (evs @ [Unmount]) s) = [])"
proof -
  note m = lma_effect_mounted [OF assms]
  from m have "dom_inv s" by (simp add: dom_inv_def)
  then have d: "dom_inv (lma_run evs s)" by (rule lma_run_dom)
  have l: "loop_pending (lma_run evs s) \<or> loop_stopped (lma_run evs s)"
    using lma_effect_pending [OF assms] by (intro lma_run_loop) simp
  from lma_unmount_effects [OF d l] lma_run_refs [of evs s] m show ?thesis
    by (simp add: lma_run_snoc)
qed

lemma la_unmount_after_run:
  assumes "la_effect q = Some t"
  shows "\<not> resizeListener (la_run (evs @ [Unmount]) t) \<and>
         frameCallbacks (la_run (evs @ [Unmount]) t) = [] \<and>
         rendererDisposed (la_run (evs @ [Unmount]) t) \<and>
         controlsDisposed (la_run (evs @ [Unmount]) t) \<and>
         materialDisposed (la_run (evs @ [Unmount]) t) \<and>
         planeGeometryDisposed (la_run (evs @ [Unmount]) t) \<and>
         (RefsDetached \<notin> set evs \<longrightarrow>
            mountDiv (la_run (evs @ [Unmount]) t) = [] \<and>
            statsDiv (la_run (evs @ [Unmount]) t) = [])"
proof -
  note m = la_effect_mounted [OF assms]
  from m have "dom_inv t" by (simp add: dom_inv_def)
  then have d: "dom_inv (la_run evs t)" by (rule la_run_dom)
  have l: "loop_pending (la_run evs t) \<or> loop_stopped (la_run evs t)"
    using la_effect_pending [OF assms] by (intro la_run_loop) simp
  from la_unmount_effects [OF d l] la_run_refs [of evs t] m show ?thesis
    by (simp add: la_run_snoc)
qed

lemma lma_step_divs:
  "e \<noteq> Unmount \<Longrightarrow>
     mountDiv (lma_step e s) = mountDiv s \<and> statsDiv (lma_step e s) = statsDiv s"
proof (cases e)
  case (Completion l)
  with lma_complete_dom [of l s] show ?thesis by simp
next
  case AnimationFrame
  with run_frame_dom [of s] show ?thesis by simp
qed (simp_all add: lma_handleResize_def foreign_request_def detach_refs_def)

lemma la_step_divs:
  "e \<noteq> Unmount \<Longrightarrow>
     mountDiv (la_step e s) = mountDiv s \<and> statsDiv (la_step e s) = statsDiv s"
proof (cases e)
  case (Completion l)
  with la_complete_dom [of l s] show ?thesis by simp
next
  case AnimationFrame
  with run_frame_dom [of s] show ?thesis by simp
qed (simp_all add: la_handleResize_def foreign_request_def detach_refs_def)

lemma lma_run_divs:
  "Unmount \<notin> set evs \<Longrightarrow>
     mountDiv (lma_run evs s) = mountDiv s \<and> statsDiv (lma_run evs s) = statsDiv s"
proof (induction evs rule: rev_induct)
  case Nil
  show ?case by (simp add: lma_run_def)
next
  case (snoc e evs)
  then have "e \<noteq> Unmount" by auto
  from lma_step_divs [OF this, of "lma_run evs s"] snoc show ?case
    by (simp add: lma_run_snoc)
qed

lemma la_run_divs:
  "Unmount \<notin> set evs \<Longrightarrow>
     mountDiv (la_run evs s) = mountDiv s \<and> statsDiv (la_run evs s) = statsDiv s"
proof (induction evs rule: rev_induct)
  case Nil
  show ?case by (simp add: la_run_def)
next
  case (snoc e evs)
  then have "e \<noteq> Unmount" by auto
  from la_step_divs [OF this, of "la_run evs s"] snoc show ?case
    by (simp add: la_run_snoc)
qed

lemma cleanup_common_detached:
  "mountDiv (cleanup_common (detach_refs s)) = mountDiv s \<and>
   statsDiv (cleanup_common (detach_refs s)) = statsDiv s"
  by (simp add: cleanup_common_def cancelAnimationFrame_def detach_refs_def Let_def
      split: option.splits)

lemma lma_unmount_detached:
  assumes "lma_effect p = Some s" "Unmount \<notin> set evs"
  shows "mountDiv (lma_run (evs @ [RefsDetached, Unmount]) s) = [RendererDomElement] \<and>
         statsDiv (lma_run (evs @ [RefsDetached, Unmount]) s) = [StatsDom]"
proof -
  have "lma_run (evs @ [RefsDetached, Unmount]) s =
        lma_cleanup (detach_refs (lma_run evs s))"
    by (simp add: lma_run_def)
  with cleanup_common_detached [of "lma_run evs s"] lma_run_divs [OF assms(2), of s]
    lma_effect_mounted [OF assms(1)]
  show ?thesis by (simp add: lma_cleanup_def Let_def)
qed

lemma la_unmount_detached:
  assumes "la_effect q = Some t" "Unmount \<notin> set evs"
  shows "mountDiv (la_run (evs @ [RefsDetached, Unmount]) t) = [RendererDomElement] \<and>
         statsDiv (la_run (evs @ [RefsDetached, Unmount]) t) = [StatsDom]"
proof -
  have "la_run (evs @ [RefsDetached, Unmount]) t =
        la_cleanup (detach_refs (la_run evs t))"
    by (simp add: la_run_def)
  with cleanup_common_detached [of "la_run evs t"] la_run_divs [OF assms(2), of t]
    la_effect_mounted [OF assms(1)]
  show ?thesis by (simp add: la_cleanup_def Let_def)
qed

text \<open>
  C5. The mount is as the claim says (\<open>lma_effect_mounted\<close>, \<open>la_effect_mounted\<close>), and
  so is most of the teardown; the removal of the DOM nodes is not. React clears \<open>mountRef.current\<close> and \<open>statsRef.current\<close> before it
  runs the cleanup of a \<open>useEffect\<close>, so an unmount is the refs being cleared and then the
  cleanup. For both components, mounted with both refs set and after any events before
  the unmount: the cleanup removes the resize listener, cancels the frame request and
  disposes the renderer and the controls, but its guards on \<open>mountRef.current\<close> and
  \<open>statsRef.current\<close> read \<open>null\<close> and skip both \<open>removeChild\<close> calls, and the canvas and
  the stats panel stay in their containers.
\<close>

theorem viewer_unmount_leaves_dom:
  assumes "lma_effect p = Some s" and "la_effect q = Some t"
    and "Unmount \<notin> set evs" and "Unmount \<notin> set tevs"
  shows "(mountDiv (lma_run (evs @ [RefsDetached, Unmount]) s) = [RendererDomElement] \<and>
          statsDiv (lma_run (evs @ [RefsDetached, Unmount]) s) = [StatsDom]) \<and>
         (\<not> resizeListener (lma_run (evs @ [RefsDetached, Unmount]) s) \<and>
          frameCallbacks (lma_run (evs @ [RefsDetached, Unmount]) s) = [] \<and>
          rendererDisposed (lma_run (evs @ [RefsDetached, Unmount]) s) \<and>
          controlsDisposed (lma_run (evs @ [RefsDetached, Unmount]) s)) \<and>
         (mountDiv (la_run (tevs @ [RefsDetached, Unmount]) t) = [RendererDomElement] \<and>
          statsDiv (la_run (tevs @ [RefsDetached, Unmount]) t) = [StatsDom]) \<and>
         (\<not> resizeListener (la_run (tevs @ [RefsDetached, Unmount]) t) \<and>
          frameCallbacks (la_run (tevs @ [RefsDetached, Unmount]) t) = [] \<and>
          rendererDisposed (la_run (tevs @ [RefsDetached, Unmount]) t) \<and>
          controlsDisposed (la_run (tevs @ [RefsDetached, Unmount]) t))"
proof -
  have e: "evs @ [RefsDetached, Unmount] = (evs @ [RefsDetached]) @ [Unmount]"
    "tevs @ [RefsDetached, Unmount] = (tevs @ [RefsDetached]) @ [Unmount]"
    by simp_all
  have 1: "mountDiv (lma_run (evs @ [RefsDetached, Unmount]) s) = [RendererDomElement] \<and>
          statsDiv (lma_run (evs @ [RefsDetached, Unmount]) s) = [StatsDom]"
    by (rule lma_unmount_detached [OF assms(1) assms(3)])
  have 2: "\<not> resizeListener (lma_run (evs @ [RefsDetached, Unmount]) s) \<and>
          frameCallbacks (lma_run (evs @ [RefsDetached, Unmount]) s) = [] \<and>
          rendererDisposed (lma_run (evs @ [RefsDetached, Unmount]) s) \<and>
          controlsDisposed (lma_run (evs @ [RefsDetached, Unmount]) s)"
    unfolding e using lma_unmount_after_run [OF assms(1), of "evs @ [RefsDetached]"] by blast
  have 3: "mountDiv (la_run (tevs @ [RefsDetached, Unmount]) t) = [RendererDomElement] \<and>
          statsDiv (la_run (tevs @ [RefsDetached, Unmount]) t) = [StatsDom]"
    by (rule la_unmount_detached [OF assms(2) assms(4)])
  have 4: "\<not> resizeListener (la_run (tevs @ [RefsDetached, Unmount]) t) \<and>
          frameCallbacks (la_run (tevs @ [RefsDetached, Unmount]) t) = [] \<and>
          rendererDisposed (la_run (tevs @ [RefsDetached, Unmount]) t) \<and>
          controlsDisposed (la_run (tevs @ [RefsDetached, Unmount]) t)"
    unfolding e using la_unmount_after_run [OF assms(2), of "tevs @ [RefsDetached]"] by blast
  show ?thesis by (rule conjI [OF 1 conjI [OF 2 conjI [OF 3 4]]])
qed

text \<open>
  Both components mounted on the example page, a few events, then the unmount: the canvas
  and the stats panel are still in their containers, the renderer is disposed.
\<close>

theorem viewer_unmount_leaves_dom_witness:
  "lma_effect example_page \<noteq> None \<and> la_effect example_page \<noteq> None \<and>
   Unmount \<notin> set [AnimationFrame, Completion (BodyFailed ''404'')] \<and>
   Unmount \<notin> set [Completion (LaTextureLoaded example_texture), WindowResize 800 600] \<and>
   mountDiv (lma_run ([AnimationFrame, Completion (BodyFailed ''404'')] @ [RefsDetached, Unmount])
     (the (lma_effect example_page))) = [RendererDomElement] \<and>
   statsDiv (lma_run ([AnimationFrame, Completion (BodyFailed ''404'')] @ [RefsDetached, Unmount])
     (the (lma_effect example_page))) = [StatsDom] \<and>
   rendererDisposed (lma_run ([AnimationFrame, Completion (BodyFailed ''404'')] @ [RefsDetached, Unmount])
     (the (lma_effect example_page))) \<and>
   mountDiv (la_run ([Completion (LaTextureLoaded example_texture), WindowResize 800 600] @
       [RefsDetached, Unmount]) (the (la_effect example_page))) = [RendererDomElement] \<and>
   statsDiv (la_run ([Completion (LaTextureLoaded example_texture), WindowResize 800 600] @
       [RefsDetached, Unmount]) (the (la_effect example_page))) = [StatsDom] \<and>
   rendererDisposed (la_run ([Completion (LaTextureLoaded example_texture), WindowResize 800 600] @
       [RefsDetached, Unmount]) (the (la_effect example_page)))"
proof -
  obtain s0 where s0: "lma_effect example_page = Some s0"
    using lma_effect_example by blast
  obtain t0 where t0: "la_effect example_page = Some t0"
    using la_effect_example by blast
  have u1: "Unmount \<notin> set [AnimationFrame, Completion (BodyFailed ''404'')]"
    by simp
  have u2: "Unmount \<notin> set [Completion (LaTextureLoaded example_texture), WindowResize 800 600]"
    by simp
  from viewer_unmount_leaves_dom [OF s0 t0 u1 u2]
  show ?thesis
    using u1 u2 by (simp only: s0 t0 option.sel) simp
qed

end
